theory Spec2Isabelle
  imports Complex_Main
begin

section \<open>The fraud detector of \<^verbatim>\<open>src/fraud_detector.py\<close>\<close>

text \<open>
  A shallow embedding of the class \<^verbatim>\<open>FraudDetector\<close>. Conventions:
  \<^item> A Python float is the real number it denotes. The two products and the sum of the
    ensemble score are rounded to binary64 as the interpreter rounds them (\<open>fmul\<close>,
    \<open>fadd\<close>); the statistics of amounts are exact. The one float that can be NaN in
    the source, the result of \<^verbatim>\<open>np.mean\<close>, has the type \<open>npfloat\<close>.
  \<^item> A \<^verbatim>\<open>datetime\<close> is its wall-clock time in microseconds since
    0001-01-01T00:00:00 together with its UTC offset (\<open>None\<close> for a naive value).
  \<^item> Every exception of the source is a value of \<open>error\<close>; a method that mutates the
    detector returns the new detector beside its result, also when it raises.
  \<^item> The outcomes of the calls that leave the class (wall clock, random source, the two
    scoring models, \<^verbatim>\<open>datetime.fromisoformat\<close>) are parameters.
\<close>

subsection \<open>Errors and dates\<close>

datatype error =
    ValueError
  | KeyError string
  | TypeError
  | OverflowError
  | ModelError

definition ebind :: "error + 'a \<Rightarrow> ('a \<Rightarrow> error + 'b) \<Rightarrow> error + 'b" where
  "ebind m f = (case m of Inl e \<Rightarrow> Inl e | Inr x \<Rightarrow> f x)"

record datetime =
  wall :: int
  utcoffset :: "int option"

text \<open>\<^verbatim>\<open>timedelta(hours=n)\<close> and \<^verbatim>\<open>timedelta(days=n)\<close>, in microseconds.\<close>

definition timedelta_hours :: "int \<Rightarrow> int" where
  "timedelta_hours n = n * 3600000000"

definition timedelta_days :: "int \<Rightarrow> int" where
  "timedelta_days n = n * 86400000000"

text \<open>
  \<^verbatim>\<open>d - delta\<close> for a non-negative \<^verbatim>\<open>delta\<close>: the wall-clock fields move, the
  offset stays, and a result before \<^verbatim>\<open>datetime.min\<close> raises OverflowError.
\<close>

definition dt_sub :: "datetime \<Rightarrow> int \<Rightarrow> error + datetime" where
  "dt_sub d delta =
     (if wall d - delta < 0 then Inl OverflowError
      else Inr (d\<lparr>wall := wall d - delta\<rparr>))"

text \<open>
  \<^verbatim>\<open>a >= b\<close>: two naive values compare by wall clock, two aware values by UTC
  instant, and a naive value against an aware one raises TypeError.
\<close>

definition dt_ge :: "datetime \<Rightarrow> datetime \<Rightarrow> error + bool" where
  "dt_ge a b =
     (case (utcoffset a, utcoffset b) of
        (None, None) \<Rightarrow> Inr (wall a \<ge> wall b)
      | (Some oa, Some ob) \<Rightarrow> Inr (wall a - oa \<ge> wall b - ob)
      | _ \<Rightarrow> Inl TypeError)"

subsection \<open>Binary64 arithmetic\<close>

text \<open>
  \<open>double x\<close> is the binary64 float nearest to the real \<open>x\<close>, ties to the even
  significand: the value of the Python literal written \<open>x\<close>, and the result of an
  operation whose exact result is \<open>x\<close>. \<open>binade x\<close> is the exponent \<open>e\<close> with
  \<open>2^e \<le> x < 2^(e+1)\<close>, not below -1022, where the subnormal floats begin; the floats
  of that binade are the multiples of \<open>2^(e-52)\<close>. Floats are finite here: a result of
  magnitude \<open>2^1024\<close> or more, which Python turns into \<^verbatim>\<open>inf\<close>, keeps its 53 leading
  bits instead.
\<close>

definition rne :: "real \<Rightarrow> int" where
  "rne x =
     (let f = \<lfloor>x\<rfloor>; d = x - of_int f
      in if d < 1 / 2 then f else if 1 / 2 < d then f + 1 else if even f then f else f + 1)"

function exp_up :: "real \<Rightarrow> int \<Rightarrow> int" where
  "exp_up x e = (if 2 \<le> x then exp_up (x / 2) (e + 1) else e)"
  by pat_completeness auto
termination
  by (relation "measure (\<lambda>(x, e). nat \<lfloor>x\<rfloor>)") (auto, linarith)

function exp_down :: "real \<Rightarrow> int \<Rightarrow> int" where
  "exp_down x e = (if x < 1 \<and> - 1022 < e then exp_down (2 * x) (e - 1) else e)"
  by pat_completeness auto
termination
  by (relation "measure (\<lambda>(x, e). nat (e + 1022))") auto

declare exp_up.simps [simp del] exp_down.simps [simp del]

definition binade :: "real \<Rightarrow> int" where
  "binade x = (if 1 \<le> x then exp_up x 0 else exp_down x 0)"

definition double_pos :: "real \<Rightarrow> real" where
  "double_pos x = of_int (rne (x / 2 powi (binade x - 52))) * 2 powi (binade x - 52)"

definition double :: "real \<Rightarrow> real" where
  "double x = (if x = 0 then 0 else if 0 < x then double_pos x else - double_pos (- x))"

text \<open>Python's \<^verbatim>\<open>*\<close> and \<^verbatim>\<open>+\<close> on floats: the exact result, rounded.\<close>

definition fmul :: "real \<Rightarrow> real \<Rightarrow> real" where
  "fmul x y = double (x * y)"

definition fadd :: "real \<Rightarrow> real \<Rightarrow> real" where
  "fadd x y = double (x + y)"

subsection \<open>Transactions, history, metadata\<close>

text \<open>
  A transaction dictionary; \<open>None\<close> is an absent key. The raw \<^verbatim>\<open>timestamp\<close> is absent,
  an ISO string or a \<^verbatim>\<open>datetime\<close>; after the first step of \<^verbatim>\<open>predict\<close> it is a
  \<^verbatim>\<open>datetime\<close>, hence the type parameter.
\<close>

datatype ts_field = IsoString string | Datetime datetime

record 'ts txn =
  transaction_id :: "string option"
  user_id :: "string option"
  merchant_id :: "string option"
  amount :: "real option"
  timestamp :: 'ts

type_synonym raw_txn = "ts_field option txn"
type_synonym stamped_txn = "datetime txn"

record hist_entry =
  h_timestamp :: datetime
  h_amount :: real
  h_merchant_id :: "string option"

record user_meta =
  account_age_days :: int
  total_transactions :: int
  avg_transaction_amount :: real
  country :: string
  user_is_verified :: bool

record merchant_meta =
  merchant_category :: string
  risk_score :: real
  merchant_is_verified :: bool

datatype npfloat = Float real | NaN

record velocity =
  txn_count_1h :: nat
  txn_count_24h :: nat
  txn_count_7d :: nat
  total_amount_1h :: real
  total_amount_24h :: real
  total_amount_7d :: real
  avg_amount_24h :: npfloat

text \<open>
  The enriched transaction: the copy of the transaction with \<^verbatim>\<open>user_metadata\<close> and
  \<^verbatim>\<open>merchant_metadata\<close> set by \<^verbatim>\<open>enrich_transaction\<close>; the seven velocity keys are
  absent (\<open>None\<close>) until \<^verbatim>\<open>predict\<close> adds them with \<^verbatim>\<open>update\<close>.
\<close>

record enriched =
  e_txn :: stamped_txn
  e_user_metadata :: user_meta
  e_merchant_metadata :: merchant_meta
  e_velocity :: "velocity option"

text \<open>
  The detector. The metadata caches are keyed by the result of \<^verbatim>\<open>transaction.get\<close>,
  which is \<^verbatim>\<open>None\<close> for an absent id: Python stores under that key too.
\<close>

record detector =
  xgboost_weight :: real
  autoencoder_weight :: real
  fraud_threshold :: real
  high_risk_threshold :: real
  transaction_history :: "string \<rightharpoonup> hist_entry list"
  user_metadata :: "string option \<rightharpoonup> user_meta"
  merchant_metadata :: "string option \<rightharpoonup> merchant_meta"

text \<open>\<^verbatim>\<open>FraudDetector.__init__\<close>: the four parameters, empty history and caches.\<close>

definition init_detector :: "real \<Rightarrow> real \<Rightarrow> real \<Rightarrow> real \<Rightarrow> detector" where
  "init_detector xw aw ft hrt =
     \<lparr>xgboost_weight = xw, autoencoder_weight = aw, fraud_threshold = ft,
      high_risk_threshold = hrt, transaction_history = Map.empty,
      user_metadata = Map.empty, merchant_metadata = Map.empty\<rparr>"

text \<open>
  What the world answers during one call of \<^verbatim>\<open>predict\<close>: \<^verbatim>\<open>datetime.now()\<close>, the
  metadata the simulated lookups draw on a cache miss, the two model scores (a model
  may raise), and the value of \<^verbatim>\<open>np.random.random()\<close> in the risk-factor rules.
\<close>

record outcomes =
  clock_now :: datetime
  drawn_user_meta :: user_meta
  drawn_merchant_meta :: merchant_meta
  xgboost_out :: "error + real"
  autoencoder_out :: "error + real"
  geo_draw :: real

datatype risk = LOW | MEDIUM | HIGH

record score_result =
  r_transaction_id :: string
  fraud_score :: real
  xgboost_score :: real
  autoencoder_score :: real
  is_fraud :: bool
  risk_level :: risk
  risk_factors :: "string list"
  r_timestamp :: datetime

subsection \<open>\<^verbatim>\<open>enrich_transaction\<close>\<close>

definition enrich_transaction :: "outcomes \<Rightarrow> detector \<Rightarrow> stamped_txn \<Rightarrow> enriched \<times> detector" where
  "enrich_transaction orc s transaction =
     (let uid = user_id transaction;
          (um, s1) = (case user_metadata s uid of
                        Some m \<Rightarrow> (m, s)
                      | None \<Rightarrow> (drawn_user_meta orc,
                                 s\<lparr>user_metadata := (user_metadata s)(uid \<mapsto> drawn_user_meta orc)\<rparr>));
          mid = merchant_id transaction;
          (mm, s2) = (case merchant_metadata s1 mid of
                        Some m \<Rightarrow> (m, s1)
                      | None \<Rightarrow> (drawn_merchant_meta orc,
                                 s1\<lparr>merchant_metadata := (merchant_metadata s1)(mid \<mapsto> drawn_merchant_meta orc)\<rparr>))
      in (\<lparr>e_txn = transaction, e_user_metadata = um, e_merchant_metadata = mm,
           e_velocity = None\<rparr>, s2))"

subsection \<open>\<^verbatim>\<open>calculate_velocity_features\<close>\<close>

text \<open>
  The comprehension \<^verbatim>\<open>[t for t in history if t['timestamp'] >= cutoff]\<close>; the
  comparison of the first entry whose awareness differs from the cutoff's raises.
\<close>

fun since :: "hist_entry list \<Rightarrow> datetime \<Rightarrow> error + hist_entry list" where
  "since [] cutoff = Inr []"
| "since (t # history) cutoff =
     ebind (dt_ge (h_timestamp t) cutoff) (\<lambda>keep.
     ebind (since history cutoff) (\<lambda>rest.
     Inr (if keep then t # rest else rest)))"

text \<open>\<^verbatim>\<open>np.mean\<close> of a list: NaN (with a warning) on the empty list.\<close>

definition np_mean :: "real list \<Rightarrow> npfloat" where
  "np_mean xs = (if xs = [] then NaN else Float (sum_list xs / real (length xs)))"

definition zero_velocity :: velocity where
  "zero_velocity =
     \<lparr>txn_count_1h = 0, txn_count_24h = 0, txn_count_7d = 0,
      total_amount_1h = 0, total_amount_24h = 0, total_amount_7d = 0,
      avg_amount_24h = Float 0\<rparr>"

definition calculate_velocity_features :: "detector \<Rightarrow> string \<Rightarrow> datetime \<Rightarrow> error + velocity" where
  "calculate_velocity_features s uid current_time =
     (case transaction_history s uid of
        None \<Rightarrow> Inr zero_velocity
      | Some history \<Rightarrow>
          ebind (dt_sub current_time (timedelta_hours 1)) (\<lambda>one_hour_ago.
          ebind (dt_sub current_time (timedelta_days 1)) (\<lambda>one_day_ago.
          ebind (dt_sub current_time (timedelta_days 7)) (\<lambda>seven_days_ago.
          ebind (since history one_hour_ago) (\<lambda>txns_1h.
          ebind (since history one_day_ago) (\<lambda>txns_24h.
          ebind (since history seven_days_ago) (\<lambda>txns_7d.
          Inr \<lparr>txn_count_1h = length txns_1h,
               txn_count_24h = length txns_24h,
               txn_count_7d = length txns_7d,
               total_amount_1h = sum_list (map h_amount txns_1h),
               total_amount_24h = sum_list (map h_amount txns_24h),
               total_amount_7d = sum_list (map h_amount txns_7d),
               avg_amount_24h = (if txns_24h \<noteq> [] then np_mean (map h_amount txns_24h)
                                 else Float 0)\<rparr>)))))))"

subsection \<open>\<^verbatim>\<open>update_transaction_history\<close>\<close>

text \<open>
  The steps in the order of the source, each leaving its mutation behind when a later
  one raises: the empty list for a new user; the entry, whose \<^verbatim>\<open>transaction['amount']\<close>
  raises KeyError before the append; the append; the cutoff; the filtered list.
\<close>

definition update_transaction_history ::
  "detector \<Rightarrow> string \<Rightarrow> stamped_txn \<Rightarrow> (error + unit) \<times> detector" where
  "update_transaction_history s uid transaction =
     (let h0 = (case transaction_history s uid of None \<Rightarrow> [] | Some h \<Rightarrow> h);
          s1 = s\<lparr>transaction_history := (transaction_history s)(uid \<mapsto> h0)\<rparr>
      in case amount transaction of
           None \<Rightarrow> (Inl (KeyError ''amount''), s1)
         | Some a \<Rightarrow>
             (let h1 = h0 @ [\<lparr>h_timestamp = timestamp transaction, h_amount = a,
                              h_merchant_id = merchant_id transaction\<rparr>];
                  s2 = s\<lparr>transaction_history := (transaction_history s)(uid \<mapsto> h1)\<rparr>
              in case dt_sub (timestamp transaction) (timedelta_days 7) of
                   Inl e \<Rightarrow> (Inl e, s2)
                 | Inr cutoff \<Rightarrow>
                     (case since h1 cutoff of
                        Inl e \<Rightarrow> (Inl e, s2)
                      | Inr kept \<Rightarrow>
                          (Inr (), s\<lparr>transaction_history := (transaction_history s)(uid \<mapsto> kept)\<rparr>))))"

subsection \<open>The risk-factor rules\<close>

text \<open>
  \<^verbatim>\<open>_identify_risk_factors\<close>; its unused parameter \<^verbatim>\<open>features\<close> is dropped, and
  \<open>rnd\<close> is the value \<^verbatim>\<open>np.random.random()\<close> returns in the last rule. The metadata
  dictionaries the detector builds hold every key the rules read, so the defaults of
  those \<^verbatim>\<open>get\<close> calls do not appear. A comparison with NaN is false.
\<close>

definition identify_risk_factors :: "enriched \<Rightarrow> real \<Rightarrow> string list" where
  "identify_risk_factors transaction rnd =
     (let amt = (case amount (e_txn transaction) of None \<Rightarrow> 0 | Some a \<Rightarrow> a);
          avg_amount = (case e_velocity transaction of None \<Rightarrow> Float 0
                        | Some v \<Rightarrow> avg_amount_24h v);
          count_1h = (case e_velocity transaction of None \<Rightarrow> 0 | Some v \<Rightarrow> txn_count_1h v);
          merchant_meta = e_merchant_metadata transaction;
          user_meta = e_user_metadata transaction;
          factors =
            (if (case avg_amount of NaN \<Rightarrow> False | Float avg \<Rightarrow> avg > 0 \<and> amt > avg * 3)
             then [''Unusual transaction amount (3x average)'']
             else if amt > 1000 then [''High transaction amount''] else [])
            @ (if count_1h > 5 then [''High velocity spending (>5 txns/hour)''] else [])
            @ (if risk_score merchant_meta > 0.7 then [''High-risk merchant''] else [])
            @ (if \<not> merchant_is_verified merchant_meta then [''Unverified merchant''] else [])
            @ (if account_age_days user_meta < 30 then [''New user account (<30 days)''] else [])
            @ (if \<not> user_is_verified user_meta then [''Unverified user account''] else [])
            @ (if rnd < 0.1 then [''Geographic anomaly detected''] else [])
      in if factors \<noteq> [] then factors else [''No specific risk factors identified''])"

subsection \<open>\<^verbatim>\<open>predict\<close>\<close>

text \<open>\<^verbatim>\<open>str.replace('Z', '+00:00')\<close>.\<close>

fun replace_Z :: "string \<Rightarrow> string" where
  "replace_Z [] = []"
| "replace_Z (c # cs) = (if c = CHR ''Z'' then ''+00:00'' @ replace_Z cs else c # replace_Z cs)"

definition stamp :: "raw_txn \<Rightarrow> datetime \<Rightarrow> stamped_txn" where
  "stamp t d = \<lparr>transaction_id = transaction_id t, user_id = user_id t,
                merchant_id = merchant_id t, amount = amount t, timestamp = d\<rparr>"

text \<open>
  The timestamp step of \<^verbatim>\<open>predict\<close>: a string is parsed (\<open>fromisoformat\<close> returns
  \<open>None\<close> where Python raises ValueError), an absent key becomes the current time, a
  \<^verbatim>\<open>datetime\<close> stays.
\<close>

definition parse_timestamp ::
  "(string \<Rightarrow> datetime option) \<Rightarrow> outcomes \<Rightarrow> raw_txn \<Rightarrow> error + stamped_txn" where
  "parse_timestamp fromisoformat orc t =
     (case timestamp t of
        Some (IsoString str) \<Rightarrow>
          (case fromisoformat (replace_Z str) of
             None \<Rightarrow> Inl ValueError
           | Some d \<Rightarrow> Inr (stamp t d))
      | None \<Rightarrow> Inr (stamp t (clock_now orc))
      | Some (Datetime d) \<Rightarrow> Inr (stamp t d))"

text \<open>
  \<^verbatim>\<open>extract_features\<close> (\<^verbatim>\<open>FeatureEngineer.transform\<close>): the vector only feeds the
  two models, whose outcomes are parameters, so only its exception is kept:
  \<^verbatim>\<open>datetime.now() - txn['timestamp']\<close> raises TypeError for an aware timestamp,
  \<^verbatim>\<open>datetime.now()\<close> being naive.
\<close>

definition extract_features :: "enriched \<Rightarrow> error + unit" where
  "extract_features transaction =
     (if utcoffset (timestamp (e_txn transaction)) \<noteq> None then Inl TypeError else Inr ())"

text \<open>
  Steps 5 and 6 of \<^verbatim>\<open>predict\<close>: the weighted sum, each product and then the sum
  rounded, and the two threshold tests.
\<close>

definition ensemble_score :: "detector \<Rightarrow> real \<Rightarrow> real \<Rightarrow> real" where
  "ensemble_score s xgb ae =
     fadd (fmul (xgboost_weight s) xgb) (fmul (autoencoder_weight s) ae)"

definition classify :: "detector \<Rightarrow> real \<Rightarrow> risk" where
  "classify s score =
     (if score \<ge> high_risk_threshold s then HIGH
      else if score \<ge> fraud_threshold s then MEDIUM
      else LOW)"

definition predict ::
  "(string \<Rightarrow> datetime option) \<Rightarrow> outcomes \<Rightarrow> detector \<Rightarrow> raw_txn
     \<Rightarrow> (error + score_result) \<times> detector" where
  "predict fromisoformat orc s raw =
     (case parse_timestamp fromisoformat orc raw of
        Inl e \<Rightarrow> (Inl e, s)
      | Inr transaction \<Rightarrow>
          (let (enriched0, s1) = enrich_transaction orc s transaction
           in case user_id transaction of
                None \<Rightarrow> (Inl (KeyError ''user_id''), s1)
              | Some uid \<Rightarrow>
                  (case calculate_velocity_features s1 uid (timestamp transaction) of
                     Inl e \<Rightarrow> (Inl e, s1)
                   | Inr velocity_features \<Rightarrow>
                       (let enriched_txn = enriched0\<lparr>e_velocity := Some velocity_features\<rparr>
                        in case extract_features enriched_txn of
                             Inl e \<Rightarrow> (Inl e, s1)
                           | Inr features \<Rightarrow>
                               (case xgboost_out orc of
                                  Inl e \<Rightarrow> (Inl e, s1)
                                | Inr xgb \<Rightarrow>
                                    (case autoencoder_out orc of
                                       Inl e \<Rightarrow> (Inl e, s1)
                                     | Inr ae \<Rightarrow>
                                         (let score = ensemble_score s1 xgb ae;
                                              fraud = (score \<ge> fraud_threshold s1);
                                              level = classify s1 score;
                                              factors = identify_risk_factors enriched_txn (geo_draw orc)
                                          in case update_transaction_history s1 uid transaction of
                                               (Inl e, s2) \<Rightarrow> (Inl e, s2)
                                             | (Inr u, s2) \<Rightarrow>
                                                 (Inr \<lparr>r_transaction_id =
                                                         (case transaction_id transaction of
                                                            None \<Rightarrow> ''UNKNOWN'' | Some i \<Rightarrow> i),
                                                       fraud_score = score,
                                                       xgboost_score = xgb,
                                                       autoencoder_score = ae,
                                                       is_fraud = fraud,
                                                       risk_level = level,
                                                       risk_factors = factors,
                                                       r_timestamp = timestamp transaction\<rparr>,
                                                  s2))))))))"

subsection \<open>\<^verbatim>\<open>batch_predict\<close>\<close>

text \<open>
  A slot of the returned list: a result, or the dictionary of the \<^verbatim>\<open>except\<close> branch
  with the transaction id and the error (its \<^verbatim>\<open>is_fraud\<close> is \<^verbatim>\<open>None\<close>, and it has no
  score). \<open>orcs i\<close> holds the outcomes for the call for the \<open>i\<close>-th transaction.
\<close>

datatype slot = Scored score_result | Failed string error

definition slot_of :: "raw_txn \<Rightarrow> error + score_result \<Rightarrow> slot" where
  "slot_of t r =
     (case r of
        Inr result \<Rightarrow> Scored result
      | Inl e \<Rightarrow> Failed (case transaction_id t of None \<Rightarrow> ''UNKNOWN'' | Some i \<Rightarrow> i) e)"

fun batch_predict ::
  "(string \<Rightarrow> datetime option) \<Rightarrow> (nat \<Rightarrow> outcomes) \<Rightarrow> detector \<Rightarrow> raw_txn list
     \<Rightarrow> slot list \<times> detector" where
  "batch_predict fromisoformat orcs s [] = ([], s)"
| "batch_predict fromisoformat orcs s (t # transactions) =
     (let (r, s1) = predict fromisoformat (orcs 0) s t;
          (results, s2) = batch_predict fromisoformat (\<lambda>i. orcs (Suc i)) s1 transactions
      in (slot_of t r # results, s2))"

subsection \<open>Severity order of the tiers\<close>

fun severity :: "risk \<Rightarrow> nat" where
  "severity LOW = 0"
| "severity MEDIUM = 1"
| "severity HIGH = 2"

subsection \<open>A concrete run\<close>

text \<open>
  Noon of 2024-01-01 as a naive \<^verbatim>\<open>datetime\<close>, a parser that knows this one string, a
  transaction of user U1 at merchant M1 over 150.00, outcomes where the models return
  the floats written \<open>a\<close> and \<open>b\<close>, with no geographic anomaly and verified, low-risk
  metadata, and the detector constructed from four float literals.
\<close>

definition ex_noon :: datetime where
  "ex_noon = \<lparr>wall = 63839707200000000, utcoffset = None\<rparr>"

definition ex_fromisoformat :: "string \<Rightarrow> datetime option" where
  "ex_fromisoformat str = (if str = ''2024-01-01T12:00:00'' then Some ex_noon else None)"

definition ex_user_meta :: user_meta where
  "ex_user_meta = \<lparr>account_age_days = 365, total_transactions = 50,
     avg_transaction_amount = 120, country = ''US'', user_is_verified = True\<rparr>"

definition ex_merchant_meta :: merchant_meta where
  "ex_merchant_meta = \<lparr>merchant_category = ''retail'', risk_score = 0.25,
     merchant_is_verified = True\<rparr>"

definition ex_outcomes :: "real \<Rightarrow> real \<Rightarrow> outcomes" where
  "ex_outcomes a b = \<lparr>clock_now = ex_noon, drawn_user_meta = ex_user_meta,
     drawn_merchant_meta = ex_merchant_meta, xgboost_out = Inr (double a),
     autoencoder_out = Inr (double b), geo_draw = 0.5\<rparr>"

definition ex_detector :: "real \<Rightarrow> real \<Rightarrow> real \<Rightarrow> real \<Rightarrow> detector" where
  "ex_detector xw aw ft hrt = init_detector (double xw) (double aw) (double ft) (double hrt)"

definition ex_txn :: raw_txn where
  "ex_txn = \<lparr>transaction_id = Some ''T1'', user_id = Some ''U1'', merchant_id = Some ''M1'',
     amount = Some 150, timestamp = Some (IsoString ''2024-01-01T12:00:00'')\<rparr>"

text \<open>
  A stored entry stamped within the hour that ends at \<open>now\<close>, by wall clock.
\<close>

definition within_hour_before :: "datetime \<Rightarrow> hist_entry \<Rightarrow> bool" where
  "within_hour_before now r =
     (wall now - timedelta_hours 1 \<le> wall (h_timestamp r) \<and> wall (h_timestamp r) \<le> wall now)"

text \<open>
  A detector with history: user U2 has entries of 3 hours and of 50, 40, 30, 20, 10 and
  5 minutes before noon, and a late arrival stamped 8 days and 1 minute before noon;
  user U3 has one entry of 2 days before noon. The metadata of both users and of
  merchant M1 is cached. The next transaction of U2 is stamped noon.
\<close>

definition ex_entry :: "int \<Rightarrow> hist_entry" where
  "ex_entry minutes =
     \<lparr>h_timestamp = \<lparr>wall = 63839707200000000 - minutes * 60000000, utcoffset = None\<rparr>,
      h_amount = 20, h_merchant_id = Some ''M1''\<rparr>"

definition ex_history :: "hist_entry list" where
  "ex_history = [ex_entry 180, ex_entry 50, ex_entry 40, ex_entry 30, ex_entry 20,
                 ex_entry 10, ex_entry 5, ex_entry 11521]"

definition ex_busy :: detector where
  "ex_busy = (ex_detector 0.7 0.3 0.5 0.75)
     \<lparr>transaction_history := [''U2'' \<mapsto> ex_history, ''U3'' \<mapsto> [ex_entry 2880]],
      user_metadata := [Some ''U2'' \<mapsto> ex_user_meta, Some ''U3'' \<mapsto> ex_user_meta],
      merchant_metadata := [Some ''M1'' \<mapsto> ex_merchant_meta]\<rparr>"

definition ex_txn2 :: raw_txn where
  "ex_txn2 = \<lparr>transaction_id = Some ''T2'', user_id = Some ''U2'', merchant_id = Some ''M1'',
     amount = Some 150, timestamp = Some (Datetime ex_noon)\<rparr>"

text \<open>
  Two transactions \<^verbatim>\<open>predict\<close> rejects, one with a timestamp that does not parse and one
  without user id, and a batch with the first of them in the middle.
\<close>

definition ex_bad_txn :: raw_txn where
  "ex_bad_txn = \<lparr>transaction_id = Some ''T9'', user_id = Some ''U1'', merchant_id = Some ''M1'',
     amount = Some 150, timestamp = Some (IsoString ''yesterday'')\<rparr>"

definition ex_anon_txn :: raw_txn where
  "ex_anon_txn = \<lparr>transaction_id = Some ''T8'', user_id = None, merchant_id = Some ''M2'',
     amount = Some 150, timestamp = Some (Datetime ex_noon)\<rparr>"

text \<open>
  Two more: a first transaction of user U4 without amount, and a first transaction of
  user U5 stamped 0001-01-03, less than seven days after \<^verbatim>\<open>datetime.min\<close>.
\<close>

definition ex_no_amount_txn :: raw_txn where
  "ex_no_amount_txn = \<lparr>transaction_id = Some ''T7'', user_id = Some ''U4'',
     merchant_id = Some ''M1'', amount = None, timestamp = Some (Datetime ex_noon)\<rparr>"

definition ex_early_txn :: raw_txn where
  "ex_early_txn = \<lparr>transaction_id = Some ''T6'', user_id = Some ''U5'',
     merchant_id = Some ''M1'', amount = Some 150,
     timestamp = Some (Datetime \<lparr>wall = 172800000000, utcoffset = None\<rparr>)\<rparr>"

definition ex_batch :: "raw_txn list" where
  "ex_batch = [ex_txn, ex_bad_txn, ex_txn2]"

text \<open>The enriched form of the transaction of U1, with all-zero velocity.\<close>

definition ex_enriched :: enriched where
  "ex_enriched = \<lparr>e_txn = stamp ex_txn ex_noon, e_user_metadata = ex_user_meta,
     e_merchant_metadata = ex_merchant_meta, e_velocity = Some zero_velocity\<rparr>"

section \<open>Properties\<close>

subsection \<open>Inversion of \<^verbatim>\<open>predict\<close>\<close>

lemma enrich_config:
  assumes "enrich_transaction orc s t = (e, s1)"
  shows "xgboost_weight s1 = xgboost_weight s" "autoencoder_weight s1 = autoencoder_weight s"
    "fraud_threshold s1 = fraud_threshold s" "high_risk_threshold s1 = high_risk_threshold s"
    "transaction_history s1 = transaction_history s"
  using assms by (auto simp: enrich_transaction_def Let_def split: option.splits)

lemma predict_unfold:
  assumes t: "parse_timestamp f orc raw = Inr t"
    and e: "enrich_transaction orc s t = (e, s1)"
  shows "predict f orc s raw =
     (case user_id t of
                None \<Rightarrow> (Inl (KeyError ''user_id''), s1)
              | Some uid \<Rightarrow>
                  (case calculate_velocity_features s1 uid (timestamp t) of
                     Inl e \<Rightarrow> (Inl e, s1)
                   | Inr velocity_features \<Rightarrow>
                       (let enriched_txn = e\<lparr>e_velocity := Some velocity_features\<rparr>
                        in case extract_features enriched_txn of
                             Inl e \<Rightarrow> (Inl e, s1)
                           | Inr features \<Rightarrow>
                               (case xgboost_out orc of
                                  Inl e \<Rightarrow> (Inl e, s1)
                                | Inr xgb \<Rightarrow>
                                    (case autoencoder_out orc of
                                       Inl e \<Rightarrow> (Inl e, s1)
                                     | Inr ae \<Rightarrow>
                                         (let score = ensemble_score s1 xgb ae;
                                              fraud = (score \<ge> fraud_threshold s1);
                                              level = classify s1 score;
                                              factors = identify_risk_factors enriched_txn (geo_draw orc)
                                          in case update_transaction_history s1 uid t of
                                               (Inl e, s2) \<Rightarrow> (Inl e, s2)
                                             | (Inr u, s2) \<Rightarrow>
                                                 (Inr \<lparr>r_transaction_id =
                                                         (case transaction_id t of
                                                            None \<Rightarrow> ''UNKNOWN'' | Some i \<Rightarrow> i),
                                                       fraud_score = score,
                                                       xgboost_score = xgb,
                                                       autoencoder_score = ae,
                                                       is_fraud = fraud,
                                                       risk_level = level,
                                                       risk_factors = factors,
                                                       r_timestamp = timestamp t\<rparr>,
                                                  s2)))))))"
  by (simp add: predict_def t e)

lemma predict_Inr_inv:
  assumes "predict f orc s raw = (Inr r, s')"
  obtains t e s1 uid v xgb ae where
    "parse_timestamp f orc raw = Inr t"
    "enrich_transaction orc s t = (e, s1)"
    "user_id t = Some uid"
    "calculate_velocity_features s1 uid (timestamp t) = Inr v"
    "extract_features (e\<lparr>e_velocity := Some v\<rparr>) = Inr ()"
    "xgboost_out orc = Inr xgb"
    "autoencoder_out orc = Inr ae"
    "update_transaction_history s1 uid t = (Inr (), s')"
    "r = \<lparr>r_transaction_id = (case transaction_id t of None \<Rightarrow> ''UNKNOWN'' | Some i \<Rightarrow> i),
          fraud_score = ensemble_score s1 xgb ae,
          xgboost_score = xgb,
          autoencoder_score = ae,
          is_fraud = (ensemble_score s1 xgb ae \<ge> fraud_threshold s1),
          risk_level = classify s1 (ensemble_score s1 xgb ae),
          risk_factors = identify_risk_factors (e\<lparr>e_velocity := Some v\<rparr>) (geo_draw orc),
          r_timestamp = timestamp t\<rparr>"
proof -
  obtain t where t: "parse_timestamp f orc raw = Inr t"
    using assms by (cases "parse_timestamp f orc raw") (simp_all add: predict_def)
  obtain e s1 where e: "enrich_transaction orc s t = (e, s1)"
    by (cases "enrich_transaction orc s t") auto
  note p1 = predict_unfold[OF t e]
  from assms obtain uid where uid: "user_id t = Some uid"
    by (cases "user_id t") (simp_all add: p1)
  from assms obtain v where v: "calculate_velocity_features s1 uid (timestamp t) = Inr v"
    by (cases "calculate_velocity_features s1 uid (timestamp t)") (simp_all add: p1 uid)
  from assms have x: "extract_features (e\<lparr>e_velocity := Some v\<rparr>) = Inr ()"
    by (cases "extract_features (e\<lparr>e_velocity := Some v\<rparr>)") (simp_all add: p1 uid v)
  from assms obtain xgb where xgb: "xgboost_out orc = Inr xgb"
    by (cases "xgboost_out orc") (simp_all add: p1 uid v x)
  from assms obtain ae where ae: "autoencoder_out orc = Inr ae"
    by (cases "autoencoder_out orc") (simp_all add: p1 uid v x xgb)
  obtain u s2 where u: "update_transaction_history s1 uid t = (u, s2)"
    by (cases "update_transaction_history s1 uid t") auto
  from assms have u': "u = Inr () \<and> s2 = s'"
    by (cases u) (simp_all add: p1 uid v x xgb ae u Let_def)
  from assms have r: "r = \<lparr>r_transaction_id = (case transaction_id t of None \<Rightarrow> ''UNKNOWN'' | Some i \<Rightarrow> i),
          fraud_score = ensemble_score s1 xgb ae,
          xgboost_score = xgb,
          autoencoder_score = ae,
          is_fraud = (ensemble_score s1 xgb ae \<ge> fraud_threshold s1),
          risk_level = classify s1 (ensemble_score s1 xgb ae),
          risk_factors = identify_risk_factors (e\<lparr>e_velocity := Some v\<rparr>) (geo_draw orc),
          r_timestamp = timestamp t\<rparr>"
    by (simp add: p1 uid v x xgb ae u u' Let_def)
  show thesis
    using that[OF t e uid v x xgb ae _ r] u u' by simp
qed


subsection \<open>Rounding\<close>

lemma rne_of_int [simp]: "rne (of_int n) = n"
  by (simp add: rne_def)

lemma rne_bounds: "\<lfloor>x\<rfloor> \<le> rne x" "rne x \<le> \<lfloor>x\<rfloor> + 1"
  by (simp_all add: rne_def Let_def)

lemma rne_mono: "x \<le> y \<Longrightarrow> rne x \<le> rne y"
proof -
  assume le: "x \<le> y"
  have f: "\<lfloor>x\<rfloor> \<le> \<lfloor>y\<rfloor>" using le by (rule floor_mono)
  show ?thesis
  proof (cases "\<lfloor>x\<rfloor> = \<lfloor>y\<rfloor>")
    case True
    then show ?thesis using le by (auto simp: rne_def Let_def)
  next
    case False
    with f have "\<lfloor>x\<rfloor> + 1 \<le> \<lfloor>y\<rfloor>" by simp
    with rne_bounds(2)[of x] rne_bounds(1)[of y] show ?thesis by linarith
  qed
qed


lemma two_powi_Suc: "(2::real) powi (n + 1) = 2 * 2 powi n"
  by (simp add: power_int_add)

lemma two_powi_pred: "(2::real) powi n = 2 * 2 powi (n - 1)"
  using two_powi_Suc[of "n - 1"] by simp

lemma exp_up_spec:
  "1 \<le> x \<Longrightarrow> e \<le> exp_up x e \<and> 2 powi (exp_up x e - e) \<le> x \<and> x < 2 powi (exp_up x e - e + 1)"
proof (induction x e rule: exp_up.induct)
  case (1 x e)
  show ?case
  proof (cases "2 \<le> x")
    case True
    then have k: "exp_up x e = exp_up (x / 2) (e + 1)"
      by (subst exp_up.simps) simp
    from True have "1 \<le> x / 2" by simp
    from "1.IH"[OF True this] have ih: "e + 1 \<le> exp_up x e"
      "2 powi (exp_up x e - (e + 1)) \<le> x / 2"
      "x / 2 < 2 powi (exp_up x e - (e + 1) + 1)"
      unfolding k by simp_all
    have a: "exp_up x e - (e + 1) = exp_up x e - e - 1" by simp
    from ih(2) have "2 powi (exp_up x e - e) \<le> x"
      unfolding a using two_powi_pred[of "exp_up x e - e"] by simp
    moreover from ih(3) have "x < 2 powi (exp_up x e - e + 1)"
      unfolding a using two_powi_Suc[of "exp_up x e - e"] by simp
    ultimately show ?thesis using ih(1) by simp
  next
    case False
    then have k: "exp_up x e = e"
      by (subst exp_up.simps) simp
    with False "1.prems" show ?thesis by simp
  qed
qed

lemma exp_down_spec:
  "0 < x \<Longrightarrow> x < 2 \<Longrightarrow> - 1022 \<le> e \<Longrightarrow>
     - 1022 \<le> exp_down x e \<and> exp_down x e \<le> e
     \<and> x * 2 powi (e - exp_down x e) < 2
     \<and> (1 \<le> x * 2 powi (e - exp_down x e) \<or> exp_down x e = - 1022)"
proof (induction x e rule: exp_down.induct)
  case (1 x e)
  show ?case
  proof (cases "x < 1 \<and> - 1022 < e")
    case True
    then have k: "exp_down x e = exp_down (2 * x) (e - 1)"
      by (subst exp_down.simps) simp
    from True "1.prems" have p: "0 < 2 * x" "2 * x < 2" "- 1022 \<le> e - 1" by simp_all
    from "1.IH"[OF True p] have ih: "- 1022 \<le> exp_down x e" "exp_down x e \<le> e - 1"
      "2 * x * 2 powi (e - 1 - exp_down x e) < 2"
      "1 \<le> 2 * x * 2 powi (e - 1 - exp_down x e) \<or> exp_down x e = - 1022"
      unfolding k by simp_all
    have a: "2 * x * 2 powi (e - 1 - exp_down x e) = x * 2 powi (e - exp_down x e)"
      using two_powi_pred[of "e - exp_down x e"] by (simp add: algebra_simps)
    from ih show ?thesis unfolding a by simp
  next
    case False
    then have k: "exp_down x e = e"
      by (subst exp_down.simps) auto
    from False "1.prems" show ?thesis unfolding k by auto
  qed
qed

lemma binade_spec:
  assumes "0 < x"
  shows "- 1022 \<le> binade x" "x < 2 powi (binade x + 1)"
    "2 powi binade x \<le> x \<or> binade x = - 1022"
proof -
  show "- 1022 \<le> binade x"
    using exp_up_spec[of x 0] exp_down_spec[of x 0] assms by (auto simp: binade_def)
  show "x < 2 powi (binade x + 1)"
  proof (cases "1 \<le> x")
    case True
    then show ?thesis using exp_up_spec[of x 0] by (simp add: binade_def)
  next
    case False
    with assms exp_down_spec[of x 0] have "x * 2 powi (- exp_down x 0) < 2" by simp
    then have "x < 2 * 2 powi exp_down x 0"
      by (simp add: power_int_minus field_simps)
    with False show ?thesis by (simp add: binade_def two_powi_Suc)
  qed
  show "2 powi binade x \<le> x \<or> binade x = - 1022"
  proof (cases "1 \<le> x")
    case True
    then show ?thesis using exp_up_spec[of x 0] by (simp add: binade_def)
  next
    case False
    with assms exp_down_spec[of x 0]
    have "1 \<le> x * 2 powi (- exp_down x 0) \<or> exp_down x 0 = - 1022" by simp
    then have "2 powi exp_down x 0 \<le> x \<or> exp_down x 0 = - 1022"
      by (simp add: power_int_minus field_simps)
    with False show ?thesis by (simp add: binade_def)
  qed
qed

lemma binade_mono:
  assumes "0 < x" "x \<le> y"
  shows "binade x \<le> binade y"
proof (rule ccontr)
  assume "\<not> binade x \<le> binade y"
  then have lt: "binade y + 1 \<le> binade x" by simp
  with binade_spec(1)[of y] assms have "binade x \<noteq> - 1022" by simp
  with binade_spec(3)[OF assms(1)] have "2 powi binade x \<le> x" by simp
  moreover have "y < 2 powi (binade y + 1)"
    using binade_spec(2)[of y] assms by simp
  moreover have "(2::real) powi (binade y + 1) \<le> 2 powi binade x"
    using lt by (intro power_int_increasing) simp_all
  ultimately show False using assms by linarith
qed


lemma double_pos_nonneg: "0 < x \<Longrightarrow> 0 \<le> double_pos x"
proof -
  assume "0 < x"
  then have "0 \<le> x / 2 powi (binade x - 52)" by simp
  then have "rne 0 \<le> rne (x / 2 powi (binade x - 52))" by (rule rne_mono)
  then have "0 \<le> rne (x / 2 powi (binade x - 52))"
    using rne_of_int[of 0] by simp
  then show ?thesis by (simp add: double_pos_def)
qed

lemma double_pos_upper:
  assumes "0 < x"
  shows "double_pos x \<le> 2 powi (binade x + 1)"
proof -
  let ?q = "(2::real) powi (binade x - 52)"
  have q: "0 < ?q" by (simp add: zero_less_power_int)
  have e: "(2::real) powi (binade x + 1) = 2 ^ 53 * ?q"
    using power_int_add[of "2::real" "binade x - 52" 53] by (simp add: algebra_simps)
  have "x / ?q \<le> 2 ^ 53"
    using binade_spec(2)[OF assms] q unfolding e by (simp add: field_simps)
  then have "rne (x / ?q) \<le> rne (of_int (2 ^ 53))"
    by (intro rne_mono) simp
  then have "real_of_int (rne (x / ?q)) \<le> 2 ^ 53"
    unfolding rne_of_int by (metis of_int_le_iff of_int_numeral of_int_power)
  then show ?thesis
    unfolding double_pos_def e using q by (simp add: mult_right_mono)
qed

lemma double_pos_lower:
  assumes "0 < x" "2 powi binade x \<le> x"
  shows "2 powi binade x \<le> double_pos x"
proof -
  let ?q = "(2::real) powi (binade x - 52)"
  have q: "0 < ?q" by (simp add: zero_less_power_int)
  have e: "(2::real) powi binade x = 2 ^ 52 * ?q"
    using power_int_add[of "2::real" "binade x - 52" 52] by (simp add: algebra_simps)
  have "2 ^ 52 \<le> x / ?q"
    using assms(2) q unfolding e by (simp add: field_simps)
  then have "rne (of_int (2 ^ 52)) \<le> rne (x / ?q)"
    by (intro rne_mono) simp
  then have "2 ^ 52 \<le> real_of_int (rne (x / ?q))"
    unfolding rne_of_int by (metis of_int_le_iff of_int_numeral of_int_power)
  then show ?thesis
    unfolding double_pos_def e using q by (simp add: mult_right_mono)
qed

lemma double_pos_mono:
  assumes "0 < x" "x \<le> y"
  shows "double_pos x \<le> double_pos y"
proof (cases "binade x = binade y")
  case True
  let ?q = "(2::real) powi (binade y - 52)"
  have q: "0 < ?q" by (simp add: zero_less_power_int)
  have "x / ?q \<le> y / ?q" using assms q by (simp add: divide_right_mono)
  then have "rne (x / ?q) \<le> rne (y / ?q)" by (rule rne_mono)
  then show ?thesis
    unfolding double_pos_def True using q by (simp add: mult_right_mono)
next
  case False
  with binade_mono[OF assms] have lt: "binade x + 1 \<le> binade y" by simp
  have y: "0 < y" using assms by simp
  from lt binade_spec(1)[OF assms(1)] have "binade y \<noteq> - 1022" by simp
  with binade_spec(3)[OF y] have "2 powi binade y \<le> y" by simp
  then have "2 powi binade y \<le> double_pos y" by (rule double_pos_lower[OF y])
  moreover have "(2::real) powi (binade x + 1) \<le> 2 powi binade y"
    using lt by (intro power_int_increasing) simp_all
  ultimately show ?thesis using double_pos_upper[OF assms(1)] by linarith
qed

lemma double_mono: "x \<le> y \<Longrightarrow> double x \<le> double y"
  using double_pos_mono[of x y] double_pos_mono[of "- y" "- x"]
    double_pos_nonneg[of y] double_pos_nonneg[of "- x"]
  by (auto simp: double_def)

lemma fmul_mono: "0 \<le> w \<Longrightarrow> x \<le> y \<Longrightarrow> fmul w x \<le> fmul w y"
  unfolding fmul_def by (intro double_mono mult_left_mono)

lemma fadd_mono: "a \<le> b \<Longrightarrow> c \<le> d \<Longrightarrow> fadd a c \<le> fadd b d"
  unfolding fadd_def by (intro double_mono add_mono)

text \<open>Floats that are what their literals say, and the sums the examples need.\<close>

lemma double_exact:
  "double 0 = 0" "double 1 = 1" "double 0.5 = 0.5" "double 0.75 = 0.75"
  "double 0.25 = 0.25" "double 1.5 = 1.5" "double (- 0.5) = - 0.5"
  by code_simp+

lemma ensemble_069:
  "fadd (fmul (double 0.7) (double 0.9)) (fmul (double 0.3) (double 0.2)) = double 0.69"
  by code_simp

lemma ensemble_0935:
  "fadd (fmul (double 0.7) (double 0.95)) (fmul (double 0.3) (double 0.9))
     = double 0.9349999999999999"
  by code_simp

lemma ensemble_18:
  "fadd (fmul (double 1) (double 0.9)) (fmul (double 1) (double 0.9)) = double 1.8"
  by code_simp

lemma ensemble_neg:
  "fadd (fmul (double (- 0.5)) (double 0)) (fmul (double 1.5) (double 0.5)) = 0.75"
  "fadd (fmul (double (- 0.5)) (double 1)) (fmul (double 1.5) (double 0.5)) = 0.25"
  by code_simp+

lemma double_values:
  "double 0.69 = 1553741871442821 / 2251799813685248"
  "double 0.9349999999999999 = 8421731303182827 / 9007199254740992"
  "double 0.935 = 2105432825795707 / 2251799813685248"
  "double 1.8 = 8106479329266893 / 4503599627370496"
  by code_simp+

lemma ensemble_tie:
  "fadd (fmul (double 0.7) (double 0.75)) (fmul (double 0.3) (double 0.75))
     = 6755399441055743 / 9007199254740992"
  by code_simp

lemmas ensemble_facts = ensemble_069 ensemble_0935 ensemble_18 ensemble_neg

subsection \<open>The concrete run\<close>

lemmas eval_defs = predict_def parse_timestamp_def stamp_def enrich_transaction_def
  calculate_velocity_features_def zero_velocity_def extract_features_def
  identify_risk_factors_def update_transaction_history_def dt_sub_def dt_ge_def ebind_def
  timedelta_days_def timedelta_hours_def init_detector_def ex_detector_def Let_def
  ex_noon_def ex_fromisoformat_def ex_user_meta_def ex_merchant_meta_def ex_outcomes_def ex_txn_def

lemma ex_predict:
  "fst (predict ex_fromisoformat (ex_outcomes a b) (ex_detector xw aw ft hrt) ex_txn) =
     Inr \<lparr>r_transaction_id = ''T1'',
          fraud_score = fadd (fmul (double xw) (double a)) (fmul (double aw) (double b)),
          xgboost_score = double a,
          autoencoder_score = double b,
          is_fraud = (double ft \<le> fadd (fmul (double xw) (double a)) (fmul (double aw) (double b))),
          risk_level = classify (ex_detector xw aw ft hrt)
                         (fadd (fmul (double xw) (double a)) (fmul (double aw) (double b))),
          risk_factors = [''No specific risk factors identified''],
          r_timestamp = ex_noon\<rparr>"
  by (simp add: eval_defs ensemble_score_def classify_def)

lemma ex_predict_pair:
  "\<exists>s'. predict ex_fromisoformat (ex_outcomes a b) (ex_detector xw aw ft hrt) ex_txn =
     (Inr \<lparr>r_transaction_id = ''T1'',
          fraud_score = fadd (fmul (double xw) (double a)) (fmul (double aw) (double b)),
          xgboost_score = double a,
          autoencoder_score = double b,
          is_fraud = (double ft \<le> fadd (fmul (double xw) (double a)) (fmul (double aw) (double b))),
          risk_level = classify (ex_detector xw aw ft hrt)
                         (fadd (fmul (double xw) (double a)) (fmul (double aw) (double b))),
          risk_factors = [''No specific risk factors identified''],
          r_timestamp = ex_noon\<rparr>, s')"
  using ex_predict[of a b xw aw ft hrt]
  by (cases "predict ex_fromisoformat (ex_outcomes a b) (ex_detector xw aw ft hrt) ex_txn") simp

lemma ex_detector_fields:
  "xgboost_weight (ex_detector xw aw ft hrt) = double xw"
  "autoencoder_weight (ex_detector xw aw ft hrt) = double aw"
  "fraud_threshold (ex_detector xw aw ft hrt) = double ft"
  "high_risk_threshold (ex_detector xw aw ft hrt) = double hrt"
  by (simp_all add: ex_detector_def init_detector_def)

text \<open>
  Rounding decides a tier: with the default weights and both scores at 0.75 the sum is
  the float 0.7499999999999999, below the high-risk threshold 0.75, and the tier is
  MEDIUM.
\<close>

lemma predict_tie_medium:
  "map_sum id risk_level
     (fst (predict ex_fromisoformat (ex_outcomes 0.75 0.75) (ex_detector 0.7 0.3 0.5 0.75) ex_txn))
     = Inr MEDIUM"
  unfolding ex_predict classify_def ex_detector_fields ensemble_tie unfolding double_exact
  by simp

lemma predict_result:
  assumes "predict f orc s raw = (Inr r, s')"
  shows "xgboost_out orc = Inr (xgboost_score r)"
    and "autoencoder_out orc = Inr (autoencoder_score r)"
    and "fraud_score r = fadd (fmul (xgboost_weight s) (xgboost_score r))
                              (fmul (autoencoder_weight s) (autoencoder_score r))"
    and "is_fraud r = (fraud_score r \<ge> fraud_threshold s)"
    and "risk_level r = classify s (fraud_score r)"
proof -
  from assms obtain t e s1 uid v xgb ae where
    e: "enrich_transaction orc s t = (e, s1)"
    and x: "xgboost_out orc = Inr xgb" "autoencoder_out orc = Inr ae"
    and r: "r = \<lparr>r_transaction_id = (case transaction_id t of None \<Rightarrow> ''UNKNOWN'' | Some i \<Rightarrow> i),
          fraud_score = ensemble_score s1 xgb ae,
          xgboost_score = xgb,
          autoencoder_score = ae,
          is_fraud = (ensemble_score s1 xgb ae \<ge> fraud_threshold s1),
          risk_level = classify s1 (ensemble_score s1 xgb ae),
          risk_factors = identify_risk_factors (e\<lparr>e_velocity := Some v\<rparr>) (geo_draw orc),
          r_timestamp = timestamp t\<rparr>"
    by (rule predict_Inr_inv)
  note cfg = enrich_config[OF e]
  show "xgboost_out orc = Inr (xgboost_score r)" "autoencoder_out orc = Inr (autoencoder_score r)"
    using x r by simp_all
  show "fraud_score r = fadd (fmul (xgboost_weight s) (xgboost_score r))
                              (fmul (autoencoder_weight s) (autoencoder_score r))"
    using r cfg by (simp add: ensemble_score_def)
  show "is_fraud r = (fraud_score r \<ge> fraud_threshold s)"
    using r cfg by simp
  show "risk_level r = classify s (fraud_score r)"
    using r cfg by (simp add: classify_def)
qed

subsection \<open>Ensemble score and tier\<close>

text \<open>
  C1. \<^verbatim>\<open>predict\<close> does not clamp. On a detector with both weights 1.0, when both
  models return 0.9, the result carries the fraud score 1.8, which is above 1, where
  the weighted sum clamped to \<open>[0,1]\<close> is 1.
\<close>

theorem fraud_score_above_one:
  "map_sum id fraud_score
     (fst (predict ex_fromisoformat (ex_outcomes 0.9 0.9) (ex_detector 1 1 0.5 0.75) ex_txn))
     = Inr (double 1.8)
   \<and> 1 < double 1.8
   \<and> max 0 (min 1 (double 1.8)) = 1"
  unfolding ex_predict ensemble_facts unfolding double_values by simp

text \<open>
  C2, as the code has it. The tier of a result is HIGH from the high-risk threshold on,
  MEDIUM from the fraud threshold on, LOW otherwise, and the flag holds exactly from the
  fraud threshold on. With the floats 0.7 and 0.3 as weights and 0.5 and 0.75 as
  thresholds, scores 0.9 and 0.2 give the float 0.69, MEDIUM and a raised flag; scores
  0.95 and 0.9 give the float 0.9349999999999999, which is below 0.935 by less than
  \<open>2^-52\<close>, and HIGH.
\<close>

theorem predict_tier_rule:
  assumes "predict f orc s raw = (Inr r, s')"
  shows "risk_level r =
           (if fraud_score r \<ge> high_risk_threshold s then HIGH
            else if fraud_score r \<ge> fraud_threshold s then MEDIUM
            else LOW)
       \<and> is_fraud r = (fraud_score r \<ge> fraud_threshold s)
       \<and> (xgboost_weight s = double 0.7 \<and> autoencoder_weight s = double 0.3
            \<and> fraud_threshold s = double 0.5 \<and> high_risk_threshold s = double 0.75 \<longrightarrow>
            (xgboost_out orc = Inr (double 0.9) \<and> autoencoder_out orc = Inr (double 0.2) \<longrightarrow>
               fraud_score r = double 0.69 \<and> risk_level r = MEDIUM \<and> is_fraud r)
          \<and> (xgboost_out orc = Inr (double 0.95) \<and> autoencoder_out orc = Inr (double 0.9) \<longrightarrow>
               fraud_score r = double 0.9349999999999999
               \<and> fraud_score r < 0.935 \<and> 0.935 - fraud_score r < 1 / 2 ^ 52
               \<and> risk_level r = HIGH \<and> is_fraud r))"
proof -
  note pr = predict_result[OF assms]
  have tier: "risk_level r =
           (if fraud_score r \<ge> high_risk_threshold s then HIGH
            else if fraud_score r \<ge> fraud_threshold s then MEDIUM
            else LOW)"
    using pr(5) by (simp add: classify_def)
  have flag: "is_fraud r = (fraud_score r \<ge> fraud_threshold s)"
    using pr(4) .
  have medium: "fraud_score r = double 0.69 \<and> risk_level r = MEDIUM \<and> is_fraud r"
    if w: "xgboost_weight s = double 0.7" "autoencoder_weight s = double 0.3"
      and th: "fraud_threshold s = double 0.5" "high_risk_threshold s = double 0.75"
      and sc: "xgboost_out orc = Inr (double 0.9)" "autoencoder_out orc = Inr (double 0.2)"
  proof -
    have xs: "xgboost_score r = double 0.9" "autoencoder_score r = double 0.2"
      using pr(1,2) sc by simp_all
    have v: "fraud_score r = double 0.69"
      unfolding pr(3) w xs by (rule ensemble_069)
    show ?thesis unfolding tier flag th v double_exact double_values by simp
  qed
  have high: "fraud_score r = double 0.9349999999999999
               \<and> fraud_score r < 0.935 \<and> 0.935 - fraud_score r < 1 / 2 ^ 52
               \<and> risk_level r = HIGH \<and> is_fraud r"
    if w: "xgboost_weight s = double 0.7" "autoencoder_weight s = double 0.3"
      and th: "fraud_threshold s = double 0.5" "high_risk_threshold s = double 0.75"
      and sc: "xgboost_out orc = Inr (double 0.95)" "autoencoder_out orc = Inr (double 0.9)"
  proof -
    have xs: "xgboost_score r = double 0.95" "autoencoder_score r = double 0.9"
      using pr(1,2) sc by simp_all
    have v: "fraud_score r = double 0.9349999999999999"
      unfolding pr(3) w xs by (rule ensemble_0935)
    show ?thesis unfolding tier flag th v double_exact double_values by simp
  qed
  from tier flag medium high show ?thesis by blast
qed

text \<open>Both scenarios on the default detector.\<close>

theorem predict_tier_rule_witness:
  "(\<exists>r s'. predict ex_fromisoformat (ex_outcomes 0.9 0.2) (ex_detector 0.7 0.3 0.5 0.75) ex_txn
             = (Inr r, s')
          \<and> fraud_score r = double 0.69 \<and> risk_level r = MEDIUM \<and> is_fraud r)
 \<and> (\<exists>r s'. predict ex_fromisoformat (ex_outcomes 0.95 0.9) (ex_detector 0.7 0.3 0.5 0.75) ex_txn
             = (Inr r, s')
          \<and> fraud_score r = double 0.9349999999999999 \<and> risk_level r = HIGH)"
proof
  from ex_predict_pair[of "0.9" "0.2" "0.7" "0.3" "0.5" "0.75"]
  obtain r s' where p: "predict ex_fromisoformat (ex_outcomes 0.9 0.2) (ex_detector 0.7 0.3 0.5 0.75) ex_txn
             = (Inr r, s')"
    by auto
  have o: "xgboost_out (ex_outcomes 0.9 0.2) = Inr (double 0.9)"
    "autoencoder_out (ex_outcomes 0.9 0.2) = Inr (double 0.2)"
    by (simp_all add: ex_outcomes_def)
  from predict_tier_rule[OF p] o ex_detector_fields[of "0.7" "0.3" "0.5" "0.75"]
  have "fraud_score r = double 0.69 \<and> risk_level r = MEDIUM \<and> is_fraud r"
    by blast
  with p show "\<exists>r s'. predict ex_fromisoformat (ex_outcomes 0.9 0.2) (ex_detector 0.7 0.3 0.5 0.75) ex_txn
             = (Inr r, s')
          \<and> fraud_score r = double 0.69 \<and> risk_level r = MEDIUM \<and> is_fraud r" by blast
next
  from ex_predict_pair[of "0.95" "0.9" "0.7" "0.3" "0.5" "0.75"]
  obtain r s' where p: "predict ex_fromisoformat (ex_outcomes 0.95 0.9) (ex_detector 0.7 0.3 0.5 0.75) ex_txn
             = (Inr r, s')"
    by auto
  have o: "xgboost_out (ex_outcomes 0.95 0.9) = Inr (double 0.95)"
    "autoencoder_out (ex_outcomes 0.95 0.9) = Inr (double 0.9)"
    by (simp_all add: ex_outcomes_def)
  from predict_tier_rule[OF p] o ex_detector_fields[of "0.7" "0.3" "0.5" "0.75"]
  have "fraud_score r = double 0.9349999999999999 \<and> risk_level r = HIGH"
    by blast
  with p show "\<exists>r s'. predict ex_fromisoformat (ex_outcomes 0.95 0.9) (ex_detector 0.7 0.3 0.5 0.75) ex_txn
             = (Inr r, s')
          \<and> fraud_score r = double 0.9349999999999999 \<and> risk_level r = HIGH" by blast
qed

text \<open>
  C2 as stated fails in its second scenario: the two products and the sum are rounded,
  and the result carries the float 0.9349999999999999, which is neither the float 0.935
  nor the number 0.935.
\<close>

theorem ensemble_0935_counterexample:
  "map_sum id fraud_score
     (fst (predict ex_fromisoformat (ex_outcomes 0.95 0.9) (ex_detector 0.7 0.3 0.5 0.75) ex_txn))
     = Inr (double 0.9349999999999999)
   \<and> double 0.9349999999999999 \<noteq> double 0.935
   \<and> double 0.9349999999999999 \<noteq> 0.935"
  unfolding ex_predict ensemble_facts unfolding double_values by simp

lemma classify_mono: "a \<le> b \<Longrightarrow> severity (classify s a) \<le> severity (classify s b)"
  by (simp add: classify_def)

text \<open>
  C4, as the code has it. For one configuration with non-negative weights, a result whose
  component scores are both at least those of another result (one raised, the other
  held fixed or raised too) has an ensemble score that is not smaller and a tier that
  is not less severe. The thresholds may stand in any order.
\<close>

theorem ensemble_monotone:
  assumes "predict f1 orc1 s1 raw1 = (Inr r1, s1')"
    and "predict f2 orc2 s2 raw2 = (Inr r2, s2')"
    and "xgboost_weight s2 = xgboost_weight s1"
    and "autoencoder_weight s2 = autoencoder_weight s1"
    and "fraud_threshold s2 = fraud_threshold s1"
    and "high_risk_threshold s2 = high_risk_threshold s1"
    and "0 \<le> xgboost_weight s1" and "0 \<le> autoencoder_weight s1"
    and "xgboost_score r1 \<le> xgboost_score r2"
    and "autoencoder_score r1 \<le> autoencoder_score r2"
  shows "fraud_score r1 \<le> fraud_score r2
       \<and> severity (risk_level r1) \<le> severity (risk_level r2)"
proof -
  note p1 = predict_result[OF assms(1)] and p2 = predict_result[OF assms(2)]
  have "fmul (xgboost_weight s1) (xgboost_score r1) \<le> fmul (xgboost_weight s1) (xgboost_score r2)"
    using assms(7,9) by (rule fmul_mono)
  moreover have "fmul (autoencoder_weight s1) (autoencoder_score r1)
      \<le> fmul (autoencoder_weight s1) (autoencoder_score r2)"
    using assms(8,10) by (rule fmul_mono)
  ultimately have le: "fraud_score r1 \<le> fraud_score r2"
    unfolding p1(3) p2(3) assms(3,4) by (rule fadd_mono)
  have "classify s2 = classify s1"
    using assms(5,6) by (simp add: classify_def fun_eq_iff)
  then have "severity (risk_level r1) \<le> severity (risk_level r2)"
    unfolding p1(5) p2(5) using classify_mono[OF le] by simp
  with le show ?thesis ..
qed

text \<open>The default detector, first component raised from 0.2 to 0.9.\<close>

theorem ensemble_monotone_witness:
  "\<exists>r1 s1' r2 s2'.
      predict ex_fromisoformat (ex_outcomes 0.2 0.2) (ex_detector 0.7 0.3 0.5 0.75) ex_txn = (Inr r1, s1')
    \<and> predict ex_fromisoformat (ex_outcomes 0.9 0.2) (ex_detector 0.7 0.3 0.5 0.75) ex_txn = (Inr r2, s2')
    \<and> fraud_score r1 \<le> fraud_score r2
    \<and> severity (risk_level r1) \<le> severity (risk_level r2)"
proof -
  from ex_predict_pair[of "0.2" "0.2" "0.7" "0.3" "0.5" "0.75"]
  obtain r1 s1' where p1: "predict ex_fromisoformat (ex_outcomes 0.2 0.2) (ex_detector 0.7 0.3 0.5 0.75) ex_txn = (Inr r1, s1')"
    and r1: "xgboost_score r1 = double 0.2" "autoencoder_score r1 = double 0.2"
    by auto
  from ex_predict_pair[of "0.9" "0.2" "0.7" "0.3" "0.5" "0.75"]
  obtain r2 s2' where p2: "predict ex_fromisoformat (ex_outcomes 0.9 0.2) (ex_detector 0.7 0.3 0.5 0.75) ex_txn = (Inr r2, s2')"
    and r2: "xgboost_score r2 = double 0.9" "autoencoder_score r2 = double 0.2"
    by auto
  have nn: "0 \<le> double 0.7" "0 \<le> double 0.3"
    using double_mono[of 0 "0.7"] double_mono[of 0 "0.3"] by (simp_all add: double_exact)
  have "fraud_score r1 \<le> fraud_score r2
       \<and> severity (risk_level r1) \<le> severity (risk_level r2)"
    by (rule ensemble_monotone[OF p1 p2])
       (simp_all add: ex_detector_fields r1 r2 nn double_mono)
  with p1 p2 show ?thesis by blast
qed

text \<open>
  C4 as stated, for any fixed weights, fails for a negative weight, which the constructor
  accepts: with weights -0.5 and 1.5 (of sum 1) and second score 0.5, raising the first
  score from 0 to 1 lowers the ensemble score from 0.75 to 0.25 and the tier from HIGH
  to LOW.
\<close>

theorem ensemble_monotone_counterexample:
  "map_sum id fraud_score
     (fst (predict ex_fromisoformat (ex_outcomes 0 0.5) (ex_detector (- 0.5) 1.5 0.5 0.75) ex_txn))
     = Inr 0.75
 \<and> map_sum id risk_level
     (fst (predict ex_fromisoformat (ex_outcomes 0 0.5) (ex_detector (- 0.5) 1.5 0.5 0.75) ex_txn))
     = Inr HIGH
 \<and> map_sum id fraud_score
     (fst (predict ex_fromisoformat (ex_outcomes 1 0.5) (ex_detector (- 0.5) 1.5 0.5 0.75) ex_txn))
     = Inr 0.25
 \<and> map_sum id risk_level
     (fst (predict ex_fromisoformat (ex_outcomes 1 0.5) (ex_detector (- 0.5) 1.5 0.5 0.75) ex_txn))
     = Inr LOW"
  unfolding ex_predict ensemble_facts
  unfolding classify_def ex_detector_fields double_exact by simp

text \<open>
  C10. When the fraud threshold is at most the high-risk threshold, the flag of a result
  is raised exactly when its tier is not LOW. A score from the high-risk threshold on
  but below the fraud threshold, possible only in the other order, is HIGH with the
  flag down.
\<close>

theorem flag_tier_consistency:
  assumes "predict f orc s raw = (Inr r, s')"
  shows "(fraud_threshold s \<le> high_risk_threshold s \<longrightarrow> is_fraud r = (risk_level r \<noteq> LOW))
       \<and> (high_risk_threshold s \<le> fraud_score r \<and> fraud_score r < fraud_threshold s
            \<longrightarrow> risk_level r = HIGH \<and> \<not> is_fraud r)"
  using predict_result(4,5)[OF assms] by (auto simp: classify_def)

text \<open>
  The default thresholds, and the thresholds swapped (fraud 0.75, high risk 0.5) on the
  score 0.69.
\<close>

theorem flag_tier_consistency_witness:
  "(\<exists>r s'. predict ex_fromisoformat (ex_outcomes 0.9 0.2) (ex_detector 0.7 0.3 0.5 0.75) ex_txn
             = (Inr r, s')
          \<and> is_fraud r = (risk_level r \<noteq> LOW))
 \<and> (\<exists>r s'. predict ex_fromisoformat (ex_outcomes 0.9 0.2) (ex_detector 0.7 0.3 0.75 0.5) ex_txn
             = (Inr r, s')
          \<and> risk_level r = HIGH \<and> \<not> is_fraud r)"
proof
  from ex_predict_pair[of "0.9" "0.2" "0.7" "0.3" "0.5" "0.75"]
  obtain r s' where p: "predict ex_fromisoformat (ex_outcomes 0.9 0.2) (ex_detector 0.7 0.3 0.5 0.75) ex_txn
             = (Inr r, s')"
    by auto
  have "fraud_threshold (ex_detector 0.7 0.3 0.5 0.75)
      \<le> high_risk_threshold (ex_detector 0.7 0.3 0.5 0.75)"
    unfolding ex_detector_fields double_exact by simp
  with flag_tier_consistency[OF p]
  have "is_fraud r = (risk_level r \<noteq> LOW)"
    by blast
  with p show "\<exists>r s'. predict ex_fromisoformat (ex_outcomes 0.9 0.2) (ex_detector 0.7 0.3 0.5 0.75) ex_txn
             = (Inr r, s')
          \<and> is_fraud r = (risk_level r \<noteq> LOW)" by blast
next
  from ex_predict_pair[of "0.9" "0.2" "0.7" "0.3" "0.75" "0.5"]
  obtain r s' where p: "predict ex_fromisoformat (ex_outcomes 0.9 0.2) (ex_detector 0.7 0.3 0.75 0.5) ex_txn
             = (Inr r, s')"
    and r: "fraud_score r = fadd (fmul (double 0.7) (double 0.9)) (fmul (double 0.3) (double 0.2))"
    by auto
  have "high_risk_threshold (ex_detector 0.7 0.3 0.75 0.5) \<le> fraud_score r
      \<and> fraud_score r < fraud_threshold (ex_detector 0.7 0.3 0.75 0.5)"
    unfolding r ensemble_069 ex_detector_fields double_exact double_values by simp
  with flag_tier_consistency[OF p]
  have "risk_level r = HIGH \<and> \<not> is_fraud r"
    by blast
  with p show "\<exists>r s'. predict ex_fromisoformat (ex_outcomes 0.9 0.2) (ex_detector 0.7 0.3 0.75 0.5) ex_txn
             = (Inr r, s')
          \<and> risk_level r = HIGH \<and> \<not> is_fraud r" by blast
qed

lemmas ex_defs = ex_entry_def ex_history_def ex_busy_def ex_txn2_def within_hour_before_def
  ex_bad_txn_def ex_anon_txn_def ex_batch_def ex_no_amount_txn_def ex_early_txn_def


subsection \<open>History and velocity\<close>

lemma since_kept:
  "since h c = Inr kept \<Longrightarrow> \<forall>r\<in>set kept. dt_ge (h_timestamp r) c = Inr True"
proof (induction h arbitrary: kept)
  case Nil
  then show ?case by simp
next
  case (Cons t h)
  then show ?case
    by (auto simp: ebind_def split: sum.splits if_splits)
qed

lemma dt_ge_same_zone:
  "utcoffset a = utcoffset c \<Longrightarrow> dt_ge a c = Inr (wall c \<le> wall a)"
  by (auto simp: dt_ge_def split: option.splits)

lemma since_same_zone:
  "\<forall>r\<in>set h. utcoffset (h_timestamp r) = utcoffset c \<Longrightarrow>
     since h c = Inr (filter (\<lambda>r. wall c \<le> wall (h_timestamp r)) h)"
  by (induction h) (simp_all add: ebind_def dt_ge_same_zone)

lemma cvf_Some:
  assumes "transaction_history s uid = Some h"
    and "calculate_velocity_features s uid now = Inr v"
  obtains a b c x y z where
    "dt_sub now (timedelta_hours 1) = Inr a"
    "dt_sub now (timedelta_days 1) = Inr b"
    "dt_sub now (timedelta_days 7) = Inr c"
    "since h a = Inr x" "since h b = Inr y" "since h c = Inr z"
    "v = \<lparr>txn_count_1h = length x,
               txn_count_24h = length y,
               txn_count_7d = length z,
               total_amount_1h = sum_list (map h_amount x),
               total_amount_24h = sum_list (map h_amount y),
               total_amount_7d = sum_list (map h_amount z),
               avg_amount_24h = (if y \<noteq> [] then np_mean (map h_amount y)
                                 else Float 0)\<rparr>"
  using assms
  by (auto simp: calculate_velocity_features_def ebind_def split: sum.splits)

text \<open>
  C9. For a user without stored history \<^verbatim>\<open>calculate_velocity_features\<close> returns, at every
  reference time and without an error, counts 0, sums 0 and average 0. Whenever it
  returns, the average is not NaN, and it is 0 when the 24-hour window is empty:
  \<^verbatim>\<open>np.mean\<close> is never applied to an empty list.
\<close>

theorem velocity_zero_when_unseen:
  "(transaction_history s uid = None \<longrightarrow>
      calculate_velocity_features s uid now =
        Inr \<lparr>txn_count_1h = 0, txn_count_24h = 0, txn_count_7d = 0,
             total_amount_1h = 0, total_amount_24h = 0, total_amount_7d = 0,
             avg_amount_24h = Float 0\<rparr>)
 \<and> (calculate_velocity_features s uid now = Inr v \<longrightarrow>
      avg_amount_24h v \<noteq> NaN \<and> (txn_count_24h v = 0 \<longrightarrow> avg_amount_24h v = Float 0))"
proof (intro conjI impI)
  assume "transaction_history s uid = None"
  then show "calculate_velocity_features s uid now =
        Inr \<lparr>txn_count_1h = 0, txn_count_24h = 0, txn_count_7d = 0,
             total_amount_1h = 0, total_amount_24h = 0, total_amount_7d = 0,
             avg_amount_24h = Float 0\<rparr>"
    by (simp add: calculate_velocity_features_def zero_velocity_def)
next
  assume v: "calculate_velocity_features s uid now = Inr v"
  show "avg_amount_24h v \<noteq> NaN"
  proof (cases "transaction_history s uid")
    case None
    with v show ?thesis
      by (auto simp: calculate_velocity_features_def zero_velocity_def)
  next
    case (Some h)
    from Some v show ?thesis
      by (rule cvf_Some) (simp add: np_mean_def)
  qed
  assume "txn_count_24h v = 0"
  then show "avg_amount_24h v = Float 0"
  proof (cases "transaction_history s uid")
    case None
    with v show ?thesis
      by (auto simp: calculate_velocity_features_def zero_velocity_def)
  next
    case (Some h)
    assume z: "txn_count_24h v = 0"
    from Some v show ?thesis
      by (rule cvf_Some) (use z in simp)
  qed
qed


text \<open>
  The unseen user U1 of a fresh detector, and user U3, whose only entry is two days old.
\<close>

theorem velocity_zero_when_unseen_witness:
  "calculate_velocity_features (ex_detector 0.7 0.3 0.5 0.75) ''U1'' ex_noon =
        Inr \<lparr>txn_count_1h = 0, txn_count_24h = 0, txn_count_7d = 0,
             total_amount_1h = 0, total_amount_24h = 0, total_amount_7d = 0,
             avg_amount_24h = Float 0\<rparr>
 \<and> (\<exists>v. calculate_velocity_features ex_busy ''U3'' ex_noon = Inr v
        \<and> txn_count_24h v = 0 \<and> txn_count_7d v = 1 \<and> avg_amount_24h v = Float 0)"
proof
  have "transaction_history (ex_detector 0.7 0.3 0.5 0.75) ''U1'' = None"
    by (simp add: ex_detector_def init_detector_def)
  with velocity_zero_when_unseen[of "ex_detector 0.7 0.3 0.5 0.75" "''U1''" ex_noon]
  show "calculate_velocity_features (ex_detector 0.7 0.3 0.5 0.75) ''U1'' ex_noon =
        Inr \<lparr>txn_count_1h = 0, txn_count_24h = 0, txn_count_7d = 0,
             total_amount_1h = 0, total_amount_24h = 0, total_amount_7d = 0,
             avg_amount_24h = Float 0\<rparr>"
    by blast
next
  obtain v where v: "calculate_velocity_features ex_busy ''U3'' ex_noon = Inr v"
    and c: "txn_count_24h v = 0" "txn_count_7d v = 1"
    by (simp add: eval_defs ex_defs)
  from velocity_zero_when_unseen[of ex_busy "''U3''" ex_noon v] v c
  have "avg_amount_24h v = Float 0" by blast
  with v c show "\<exists>v. calculate_velocity_features ex_busy ''U3'' ex_noon = Inr v
        \<and> txn_count_24h v = 0 \<and> txn_count_7d v = 1 \<and> avg_amount_24h v = Float 0"
    by blast
qed

text \<open>
  C3. When \<^verbatim>\<open>update_transaction_history\<close> completes for a user, that user has a
  history, and every entry of it compares \<^verbatim>\<open>>=\<close> to the cutoff, the timestamp of the
  appended transaction minus seven days.
\<close>

theorem history_within_retention:
  assumes "update_transaction_history s uid t = (Inr (), s')"
  shows "\<exists>h cutoff. transaction_history s' uid = Some h
          \<and> dt_sub (timestamp t) (timedelta_days 7) = Inr cutoff
          \<and> cutoff = (timestamp t)\<lparr>wall := wall (timestamp t) - timedelta_days 7\<rparr>
          \<and> (\<forall>r\<in>set h. dt_ge (h_timestamp r) cutoff = Inr True)"
proof -
  from assms obtain a where a: "amount t = Some a"
    by (cases "amount t") (simp_all add: update_transaction_history_def Let_def)
  from assms a obtain cutoff where c: "dt_sub (timestamp t) (timedelta_days 7) = Inr cutoff"
    by (cases "dt_sub (timestamp t) (timedelta_days 7)")
       (simp_all add: update_transaction_history_def Let_def)
  define h1 where "h1 = (case transaction_history s uid of None \<Rightarrow> [] | Some h \<Rightarrow> h)
      @ [\<lparr>h_timestamp = timestamp t, h_amount = a, h_merchant_id = merchant_id t\<rparr>]"
  from assms a c obtain kept where k: "since h1 cutoff = Inr kept"
    and s': "s' = s\<lparr>transaction_history := (transaction_history s)(uid \<mapsto> kept)\<rparr>"
    by (cases "since h1 cutoff")
       (auto simp: update_transaction_history_def Let_def h1_def)
  have "cutoff = (timestamp t)\<lparr>wall := wall (timestamp t) - timedelta_days 7\<rparr>"
    using c by (auto simp: dt_sub_def split: if_splits)
  moreover have "transaction_history s' uid = Some kept"
    using s' by simp
  ultimately show ?thesis
    using c since_kept[OF k] by blast
qed

text \<open>
  Appending the noon transaction of U2: of the eight stored entries the one older than
  seven days goes, and the new one comes.
\<close>

theorem history_within_retention_witness:
  "\<exists>s' h. update_transaction_history ex_busy ''U2'' (stamp ex_txn2 ex_noon) = (Inr (), s')
        \<and> transaction_history s' ''U2'' = Some h
        \<and> length h = 8
        \<and> list_all (\<lambda>r. dt_ge (h_timestamp r)
                          \<lparr>wall = 63839102400000000, utcoffset = None\<rparr> = Inr True) h"
proof -
  obtain s' where u: "update_transaction_history ex_busy ''U2'' (stamp ex_txn2 ex_noon) = (Inr (), s')"
    and l: "map_option length (transaction_history s' ''U2'') = Some 8"
    by (simp add: eval_defs ex_defs)
  from history_within_retention[OF u] l
  have "\<exists>h. transaction_history s' ''U2'' = Some h \<and> length h = 8
        \<and> list_all (\<lambda>r. dt_ge (h_timestamp r)
                          \<lparr>wall = 63839102400000000, utcoffset = None\<rparr> = Inr True) h"
    by (auto simp: list_all_iff stamp_def ex_noon_def timedelta_days_def)
  with u show ?thesis by blast
qed

lemma cvf_history_only:
  "transaction_history s1 = transaction_history s \<Longrightarrow>
     calculate_velocity_features s1 uid now = calculate_velocity_features s uid now"
  by (simp add: calculate_velocity_features_def)

lemma parse_timestamp_fields:
  assumes "parse_timestamp f orc raw = Inr t"
  shows "transaction_id t = transaction_id raw" "user_id t = user_id raw"
    "merchant_id t = merchant_id raw" "amount t = amount raw"
  using assms
  by (auto simp: parse_timestamp_def stamp_def split: option.splits ts_field.splits)

lemma high_velocity_factor:
  assumes "e_velocity e = Some v" "5 < txn_count_1h v"
  shows "''High velocity spending (>5 txns/hour)'' \<in> set (identify_risk_factors e g)"
  using assms by (simp add: identify_risk_factors_def Let_def)

text \<open>
  C8, as the code has it. Let the stored history of a user hold exactly six entries
  stamped within the hour that ends at the current transaction's timestamp and none
  stamped after it, all with the UTC offset of that timestamp, which is at least seven
  days after \<^verbatim>\<open>datetime.min\<close>. Then \<^verbatim>\<open>calculate_velocity_features\<close> reports
  \<^verbatim>\<open>txn_count_1h\<close> = 6: the current transaction is not yet stored and is not counted.
  Six exceeds five, so the rules list the high-velocity factor for these statistics, and
  so does every result \<^verbatim>\<open>predict\<close> returns for the transaction.
\<close>

theorem velocity_counts_stored_entries:
  assumes h: "transaction_history s uid = Some h"
    and p: "parse_timestamp f orc raw = Inr t"
    and u: "user_id raw = Some uid"
    and zone: "\<forall>r\<in>set h. utcoffset (h_timestamp r) = utcoffset (timestamp t)"
    and old: "timedelta_days 7 \<le> wall (timestamp t)"
    and six: "length (filter (within_hour_before (timestamp t)) h) = 6"
    and nofuture: "\<forall>r\<in>set h. wall (h_timestamp r) \<le> wall (timestamp t)"
  shows "\<exists>v. calculate_velocity_features s uid (timestamp t) = Inr v
            \<and> txn_count_1h v = 6
            \<and> (\<forall>e g. e_velocity e = Some v \<longrightarrow>
                  ''High velocity spending (>5 txns/hour)'' \<in> set (identify_risk_factors e g))
            \<and> (\<forall>r s'. predict f orc s raw = (Inr r, s') \<longrightarrow>
                  ''High velocity spending (>5 txns/hour)'' \<in> set (risk_factors r))"
proof -
  let ?now = "timestamp t"
  define a where "a = ?now\<lparr>wall := wall ?now - timedelta_hours 1\<rparr>"
  define b where "b = ?now\<lparr>wall := wall ?now - timedelta_days 1\<rparr>"
  define c where "c = ?now\<lparr>wall := wall ?now - timedelta_days 7\<rparr>"
  have sub: "dt_sub ?now (timedelta_hours 1) = Inr a" "dt_sub ?now (timedelta_days 1) = Inr b"
    "dt_sub ?now (timedelta_days 7) = Inr c"
    using old by (simp_all add: dt_sub_def a_def b_def c_def timedelta_days_def timedelta_hours_def)
  have za: "\<forall>r\<in>set h. utcoffset (h_timestamp r) = utcoffset a"
    and zb: "\<forall>r\<in>set h. utcoffset (h_timestamp r) = utcoffset b"
    and zc: "\<forall>r\<in>set h. utcoffset (h_timestamp r) = utcoffset c"
    using zone by (simp_all add: a_def b_def c_def)
  note sa = since_same_zone[OF za] and sb = since_same_zone[OF zb] and sc = since_same_zone[OF zc]
  have "filter (\<lambda>r. wall a \<le> wall (h_timestamp r)) h = filter (within_hour_before ?now) h"
    using nofuture by (intro filter_cong refl) (simp add: within_hour_before_def a_def)
  then have len: "length (filter (\<lambda>r. wall a \<le> wall (h_timestamp r)) h) = 6"
    using six by simp
  obtain v where v: "calculate_velocity_features s uid ?now = Inr v"
    and cnt: "txn_count_1h v = length (filter (\<lambda>r. wall a \<le> wall (h_timestamp r)) h)"
    by (simp add: calculate_velocity_features_def h sub sa sb sc ebind_def)
  have c6: "txn_count_1h v = 6" using cnt len by simp
  have expl: "''High velocity spending (>5 txns/hour)'' \<in> set (identify_risk_factors e g)"
    if "e_velocity e = Some v" for e g
    using that c6 by (intro high_velocity_factor[of e v]) simp_all
  have pred: "''High velocity spending (>5 txns/hour)'' \<in> set (risk_factors r)"
    if "predict f orc s raw = (Inr r, s')" for r s'
  proof -
    from that obtain t' e s1 uid' v' where
      t': "parse_timestamp f orc raw = Inr t'"
      and e: "enrich_transaction orc s t' = (e, s1)"
      and uid': "user_id t' = Some uid'"
      and v': "calculate_velocity_features s1 uid' (timestamp t') = Inr v'"
      and r: "risk_factors r = identify_risk_factors (e\<lparr>e_velocity := Some v'\<rparr>) (geo_draw orc)"
      by (rule predict_Inr_inv) simp
    have "t' = t" using t' p by simp
    moreover have "uid' = uid"
      using uid' parse_timestamp_fields(2)[OF t'] u by simp
    ultimately have "v' = v"
      using v' v cvf_history_only[OF enrich_config(5)[OF e]] by simp
    then show ?thesis
      unfolding r by (intro expl) simp
  qed
  from v c6 expl pred show ?thesis by blast
qed

text \<open>User U2 at noon.\<close>

theorem velocity_counts_stored_entries_witness:
  "\<exists>v r s'. calculate_velocity_features ex_busy ''U2'' ex_noon = Inr v
      \<and> txn_count_1h v = 6
      \<and> predict ex_fromisoformat (ex_outcomes 0.9 0.2) ex_busy ex_txn2 = (Inr r, s')
      \<and> ''High velocity spending (>5 txns/hour)'' \<in> set (risk_factors r)"
proof -
  have h: "transaction_history ex_busy ''U2'' = Some ex_history"
    by (simp add: ex_defs)
  have p: "parse_timestamp ex_fromisoformat (ex_outcomes 0.9 0.2) ex_txn2 = Inr (stamp ex_txn2 ex_noon)"
    by (simp add: parse_timestamp_def ex_txn2_def)
  have u: "user_id ex_txn2 = Some ''U2''"
    by (simp add: ex_txn2_def)
  have ts: "timestamp (stamp ex_txn2 ex_noon) = ex_noon"
    by (simp add: stamp_def)
  obtain r s' where pr: "predict ex_fromisoformat (ex_outcomes 0.9 0.2) ex_busy ex_txn2 = (Inr r, s')"
    by (simp add: eval_defs ex_defs)
  have "\<exists>v. calculate_velocity_features ex_busy ''U2'' (timestamp (stamp ex_txn2 ex_noon)) = Inr v
            \<and> txn_count_1h v = 6
            \<and> (\<forall>e g. e_velocity e = Some v \<longrightarrow>
                  ''High velocity spending (>5 txns/hour)'' \<in> set (identify_risk_factors e g))
            \<and> (\<forall>r s'. predict ex_fromisoformat (ex_outcomes 0.9 0.2) ex_busy ex_txn2 = (Inr r, s') \<longrightarrow>
                  ''High velocity spending (>5 txns/hour)'' \<in> set (risk_factors r))"
    by (rule velocity_counts_stored_entries[OF h p u])
       (simp_all add: stamp_def ex_defs ex_noon_def timedelta_days_def timedelta_hours_def)
  with pr show ?thesis unfolding ts by blast
qed

text \<open>
  C8 as stated fails: with six stored entries within the hour before noon the count for
  U2 at noon is 6, not 7.
\<close>

theorem velocity_count_seven_counterexample:
  "transaction_history ex_busy ''U2'' = Some ex_history
 \<and> length (filter (within_hour_before ex_noon) ex_history) = 6
 \<and> map_sum id txn_count_1h (calculate_velocity_features ex_busy ''U2'' ex_noon) = Inr 6
 \<and> (6 :: nat) \<noteq> 7"
  by (simp add: eval_defs ex_defs)

subsection \<open>The risk-factor rules\<close>

lemma identify_risk_factors_shape:
  "\<exists>F. (\<forall>x\<in>set F. x \<noteq> ''Geographic anomaly detected''
                  \<and> x \<noteq> ''No specific risk factors identified'')
     \<and> (\<forall>g. identify_risk_factors e g =
            (if F @ (if g < 0.1 then [''Geographic anomaly detected''] else []) \<noteq> []
             then F @ (if g < 0.1 then [''Geographic anomaly detected''] else [])
             else [''No specific risk factors identified'']))"
proof -
  define amt where "amt = (case amount (e_txn e) of None \<Rightarrow> 0 | Some a \<Rightarrow> a)"
  define F where "F =
            (if (case (case e_velocity e of None \<Rightarrow> Float 0 | Some v \<Rightarrow> avg_amount_24h v)
                 of NaN \<Rightarrow> False | Float avg \<Rightarrow> avg > 0 \<and> amt > avg * 3)
             then [''Unusual transaction amount (3x average)'']
             else if amt > 1000 then [''High transaction amount''] else [])
            @ (if (case e_velocity e of None \<Rightarrow> 0 | Some v \<Rightarrow> txn_count_1h v) > 5
               then [''High velocity spending (>5 txns/hour)''] else [])
            @ (if risk_score (e_merchant_metadata e) > 0.7 then [''High-risk merchant''] else [])
            @ (if \<not> merchant_is_verified (e_merchant_metadata e) then [''Unverified merchant''] else [])
            @ (if account_age_days (e_user_metadata e) < 30 then [''New user account (<30 days)''] else [])
            @ (if \<not> user_is_verified (e_user_metadata e) then [''Unverified user account''] else [])"
  have 1: "\<forall>x\<in>set F. x \<noteq> ''Geographic anomaly detected''
                  \<and> x \<noteq> ''No specific risk factors identified''"
    unfolding F_def by auto
  have 2: "identify_risk_factors e g =
            (if F @ (if g < 0.1 then [''Geographic anomaly detected''] else []) \<noteq> []
             then F @ (if g < 0.1 then [''Geographic anomaly detected''] else [])
             else [''No specific risk factors identified''])" for g
    unfolding identify_risk_factors_def Let_def F_def amt_def by simp
  from 1 2 show ?thesis by blast
qed

text \<open>
  C5, as the code has it. The list of risk factors is a function of the enriched
  transaction and of one draw from the random source: two draws on the same side of
  0.1 give the same list, and any two draws give the same list once the geographic
  anomaly entry and the no-factors entry are removed.
\<close>

theorem risk_factors_depend_on_draw:
  "((g1 < 0.1) = (g2 < 0.1) \<longrightarrow> identify_risk_factors e g1 = identify_risk_factors e g2)
 \<and> filter (\<lambda>x. x \<noteq> ''Geographic anomaly detected''
                 \<and> x \<noteq> ''No specific risk factors identified'') (identify_risk_factors e g1)
   = filter (\<lambda>x. x \<noteq> ''Geographic anomaly detected''
                 \<and> x \<noteq> ''No specific risk factors identified'') (identify_risk_factors e g2)"
proof -
  from identify_risk_factors_shape[of e] obtain F where
    F: "\<forall>x\<in>set F. x \<noteq> ''Geographic anomaly detected''
                  \<and> x \<noteq> ''No specific risk factors identified''"
    and s: "\<And>g. identify_risk_factors e g =
            (if F @ (if g < 0.1 then [''Geographic anomaly detected''] else []) \<noteq> []
             then F @ (if g < 0.1 then [''Geographic anomaly detected''] else [])
             else [''No specific risk factors identified''])"
    by blast
  have keep: "filter (\<lambda>x. x \<noteq> ''Geographic anomaly detected''
                 \<and> x \<noteq> ''No specific risk factors identified'') F = F"
    using F by (simp add: filter_id_conv)
  have "filter (\<lambda>x. x \<noteq> ''Geographic anomaly detected''
                 \<and> x \<noteq> ''No specific risk factors identified'') (identify_risk_factors e g) = F" for g
    unfolding s by (cases "F = []") (simp_all add: keep)
  moreover have "identify_risk_factors e g1 = identify_risk_factors e g2" if "(g1 < 0.1) = (g2 < 0.1)"
    unfolding s using that by simp
  ultimately show ?thesis by simp
qed

text \<open>The draws 0.5 and 0.9.\<close>

theorem risk_factors_depend_on_draw_witness:
  "identify_risk_factors ex_enriched 0.5 = identify_risk_factors ex_enriched 0.9"
proof -
  have "((0.5::real) < 0.1) = ((0.9::real) < 0.1)" by simp
  with risk_factors_depend_on_draw[of "0.5" "0.9" ex_enriched] show ?thesis by blast
qed

text \<open>
  C5 as stated fails: on one enriched transaction the draw 0.05 gives the geographic
  anomaly and the draw 0.5 gives the no-factors entry.
\<close>

theorem risk_factors_nondeterministic_counterexample:
  "identify_risk_factors ex_enriched 0.05 = [''Geographic anomaly detected'']
 \<and> identify_risk_factors ex_enriched 0.5 = [''No specific risk factors identified'']
 \<and> identify_risk_factors ex_enriched 0.05 \<noteq> identify_risk_factors ex_enriched 0.5"
  by (simp add: identify_risk_factors_def ex_enriched_def stamp_def ex_txn_def ex_user_meta_def
      ex_merchant_meta_def zero_velocity_def Let_def)

subsection \<open>Batches and rejected calls\<close>

lemma predict_parse_error:
  "parse_timestamp f orc raw = Inl e \<Longrightarrow> predict f orc s raw = (Inl e, s)"
  by (simp add: predict_def)

lemma batch_predict_length:
  "length (fst (batch_predict f orcs s txns)) = length txns"
  by (induction txns arbitrary: orcs s) (simp_all add: Let_def case_prod_beta)

lemma batch_predict_nth:
  "i < length txns \<Longrightarrow>
     fst (batch_predict f orcs s txns) ! i =
       slot_of (txns ! i)
         (fst (predict f (orcs i) (snd (batch_predict f orcs s (take i txns))) (txns ! i)))"
proof (induction txns arbitrary: orcs s i)
  case Nil
  then show ?case by simp
next
  case (Cons t txns)
  show ?case
  proof (cases i)
    case 0
    then show ?thesis by (simp add: Let_def case_prod_beta)
  next
    case (Suc j)
    with Cons.prems have j: "j < length txns" by simp
    obtain r s1 where p: "predict f (orcs 0) s t = (r, s1)"
      by (cases "predict f (orcs 0) s t") auto
    from Cons.IH[OF j, of "\<lambda>i. orcs (Suc i)" s1] Suc p show ?thesis
      by (simp add: Let_def case_prod_beta)
  qed
qed

text \<open>
  C6. \<^verbatim>\<open>batch_predict\<close> returns one slot per transaction, in the order of the input:
  slot \<open>i\<close> is what \<^verbatim>\<open>predict\<close> gives for transaction \<open>i\<close> in the state the
  transactions before it have left, whether or not any of them failed. When that call
  raises, the slot is the error indicator with the transaction id (or UNKNOWN) and the
  error, which carries no score; when it returns, the slot is its result.
\<close>

theorem batch_predict_slots:
  "length (fst (batch_predict f orcs s txns)) = length txns
 \<and> (\<forall>i<length txns.
       fst (batch_predict f orcs s txns) ! i =
         slot_of (txns ! i)
           (fst (predict f (orcs i) (snd (batch_predict f orcs s (take i txns))) (txns ! i))))
 \<and> (\<forall>i<length txns. \<forall>e.
       fst (predict f (orcs i) (snd (batch_predict f orcs s (take i txns))) (txns ! i)) = Inl e
       \<longrightarrow> fst (batch_predict f orcs s txns) ! i =
             Failed (case transaction_id (txns ! i) of None \<Rightarrow> ''UNKNOWN'' | Some n \<Rightarrow> n) e)
 \<and> (\<forall>i<length txns. \<forall>r.
       fst (predict f (orcs i) (snd (batch_predict f orcs s (take i txns))) (txns ! i)) = Inr r
       \<longrightarrow> fst (batch_predict f orcs s txns) ! i = Scored r)"
proof -
  have len: "length (fst (batch_predict f orcs s txns)) = length txns"
    by (rule batch_predict_length)
  have slot: "fst (batch_predict f orcs s txns) ! i =
         slot_of (txns ! i)
           (fst (predict f (orcs i) (snd (batch_predict f orcs s (take i txns))) (txns ! i)))"
    if "i < length txns" for i
    using that by (rule batch_predict_nth)
  have failed: "fst (batch_predict f orcs s txns) ! i =
             Failed (case transaction_id (txns ! i) of None \<Rightarrow> ''UNKNOWN'' | Some n \<Rightarrow> n) e"
    if "i < length txns"
      and "fst (predict f (orcs i) (snd (batch_predict f orcs s (take i txns))) (txns ! i)) = Inl e"
    for i e
    using slot[OF that(1)] that(2) by (simp add: slot_of_def)
  have scored: "fst (batch_predict f orcs s txns) ! i = Scored r"
    if "i < length txns"
      and "fst (predict f (orcs i) (snd (batch_predict f orcs s (take i txns))) (txns ! i)) = Inr r"
    for i r
    using slot[OF that(1)] that(2) by (simp add: slot_of_def)
  from len slot failed scored show ?thesis by blast
qed

text \<open>
  A batch of three whose second transaction has an unparsable timestamp: three slots,
  the second an error indicator, the third the result for the third transaction.
\<close>

theorem batch_predict_slots_witness:
  "length (fst (batch_predict ex_fromisoformat (\<lambda>i. ex_outcomes 0.9 0.2) ex_busy ex_batch)) = 3
 \<and> fst (batch_predict ex_fromisoformat (\<lambda>i. ex_outcomes 0.9 0.2) ex_busy ex_batch) ! 1
     = Failed ''T9'' ValueError
 \<and> (\<exists>r. fst (batch_predict ex_fromisoformat (\<lambda>i. ex_outcomes 0.9 0.2) ex_busy ex_batch) ! 2
     = Scored r \<and> r_transaction_id r = ''T2'')"
proof -
  let ?out = "fst (batch_predict ex_fromisoformat (\<lambda>i. ex_outcomes 0.9 0.2) ex_busy ex_batch)"
  let ?pre = "\<lambda>i. snd (batch_predict ex_fromisoformat (\<lambda>i. ex_outcomes 0.9 0.2) ex_busy (take i ex_batch))"
  note slots = batch_predict_slots[of ex_fromisoformat "\<lambda>i. ex_outcomes 0.9 0.2" ex_busy ex_batch]
  have len: "length ex_batch = 3" by (simp add: ex_batch_def)
  have b1: "ex_batch ! 1 = ex_bad_txn" and b2: "ex_batch ! 2 = ex_txn2"
    by (simp_all add: ex_batch_def)
  have "parse_timestamp ex_fromisoformat (ex_outcomes 0.9 0.2) ex_bad_txn = Inl ValueError"
    by (simp add: parse_timestamp_def ex_bad_txn_def ex_fromisoformat_def)
  then have e1: "fst (predict ex_fromisoformat (ex_outcomes 0.9 0.2) (?pre 1) (ex_batch ! 1)) = Inl ValueError"
    unfolding b1 by (simp add: predict_parse_error)
  obtain r where e2: "fst (predict ex_fromisoformat (ex_outcomes 0.9 0.2) (?pre 2) (ex_batch ! 2)) = Inr r"
    and id: "r_transaction_id r = ''T2''"
    by (simp add: eval_defs ex_defs ex_txn_def)
  have i1: "1 < length ex_batch" and i2: "2 < length ex_batch"
    by (simp_all add: len)
  from slots have L: "length ?out = length ex_batch"
    and F: "\<forall>i<length ex_batch. \<forall>e.
       fst (predict ex_fromisoformat (ex_outcomes 0.9 0.2) (?pre i) (ex_batch ! i)) = Inl e
       \<longrightarrow> ?out ! i =
             Failed (case transaction_id (ex_batch ! i) of None \<Rightarrow> ''UNKNOWN'' | Some n \<Rightarrow> n) e"
    and S: "\<forall>i<length ex_batch. \<forall>r.
       fst (predict ex_fromisoformat (ex_outcomes 0.9 0.2) (?pre i) (ex_batch ! i)) = Inr r
       \<longrightarrow> ?out ! i = Scored r"
    by blast+
  have "length ?out = 3" using L len by simp
  moreover have "?out ! 1 = Failed ''T9'' ValueError"
    using F[rule_format, OF i1 e1] unfolding b1 by (simp add: ex_bad_txn_def)
  moreover have "?out ! 2 = Scored r"
    using S[rule_format, OF i2 e2] .
  ultimately show ?thesis using id by blast
qed


lemma enrich_caches:
  assumes "enrich_transaction orc s t = (e, s1)"
  shows "\<forall>k v. user_metadata s k = Some v \<longrightarrow> user_metadata s1 k = Some v"
    and "\<forall>k. k \<noteq> user_id t \<longrightarrow> user_metadata s1 k = user_metadata s k"
    and "\<forall>k v. merchant_metadata s k = Some v \<longrightarrow> merchant_metadata s1 k = Some v"
    and "\<forall>k. k \<noteq> merchant_id t \<longrightarrow> merchant_metadata s1 k = merchant_metadata s k"
  using assms by (auto simp: enrich_transaction_def Let_def split: option.splits)

lemma update_state:
  assumes "update_transaction_history s uid t = (u, s')"
  shows "xgboost_weight s' = xgboost_weight s" "autoencoder_weight s' = autoencoder_weight s"
    "fraud_threshold s' = fraud_threshold s" "high_risk_threshold s' = high_risk_threshold s"
    "user_metadata s' = user_metadata s" "merchant_metadata s' = merchant_metadata s"
    "\<forall>k. k \<noteq> uid \<longrightarrow> transaction_history s' k = transaction_history s k"
  using assms
  by (auto simp: update_transaction_history_def Let_def split: option.splits sum.splits)

lemma since_snoc:
  "since h c = Inr z \<Longrightarrow> dt_ge (h_timestamp x) c = Inr b \<Longrightarrow>
     since (h @ [x]) c = Inr (if b then z @ [x] else z)"
proof (induction h arbitrary: z)
  case Nil
  then show ?case by (simp add: ebind_def)
next
  case (Cons t h)
  from Cons.prems(1) obtain k rest where k: "dt_ge (h_timestamp t) c = Inr k"
    and rest: "since h c = Inr rest" and z: "z = (if k then t # rest else rest)"
    by (auto simp: ebind_def split: sum.splits)
  from Cons.IH[OF rest Cons.prems(2)] k z show ?case
    by (simp add: ebind_def)
qed

lemma dt_ge_own_cutoff:
  "dt_sub d delta = Inr c \<Longrightarrow> \<exists>b. dt_ge d c = Inr b"
  by (auto simp: dt_sub_def dt_ge_def split: if_splits option.splits)

lemma update_after_velocity:
  assumes v: "calculate_velocity_features s uid (timestamp t) = Inr v"
    and u: "update_transaction_history s uid t = (Inl err, s')"
  shows "transaction_history s' = transaction_history s
       \<or> (transaction_history s uid = None \<and> amount t = None \<and> err = KeyError ''amount''
            \<and> transaction_history s' = (transaction_history s)(uid \<mapsto> []))
       \<or> (\<exists>a. transaction_history s uid = None \<and> amount t = Some a \<and> err = OverflowError
            \<and> wall (timestamp t) < timedelta_days 7
            \<and> transaction_history s' = (transaction_history s)(uid \<mapsto>
                 [\<lparr>h_timestamp = timestamp t, h_amount = a, h_merchant_id = merchant_id t\<rparr>]))"
proof (cases "amount t")
  case None
  with u have e: "err = KeyError ''amount''"
    and s': "transaction_history s' = (transaction_history s)
        (uid \<mapsto> (case transaction_history s uid of None \<Rightarrow> [] | Some h \<Rightarrow> h))"
    by (auto simp: update_transaction_history_def Let_def)
  show ?thesis
  proof (cases "transaction_history s uid")
    case N: None
    with None e s' show ?thesis by simp
  next
    case (Some h)
    with s' have "transaction_history s' = transaction_history s"
      by (auto simp: fun_eq_iff)
    then show ?thesis by simp
  qed
next
  case (Some a)
  let ?x = "\<lparr>h_timestamp = timestamp t, h_amount = a, h_merchant_id = merchant_id t\<rparr>"
  show ?thesis
  proof (cases "transaction_history s uid")
    case None
    show ?thesis
    proof (cases "dt_sub (timestamp t) (timedelta_days 7)")
      case (Inl e)
      then have "e = OverflowError" "wall (timestamp t) < timedelta_days 7"
        by (auto simp: dt_sub_def split: if_splits)
      with Inl u Some None show ?thesis
        by (auto simp: update_transaction_history_def Let_def)
    next
      case (Inr c)
      from dt_ge_own_cutoff[OF Inr] obtain b where "dt_ge (timestamp t) c = Inr b" ..
      then have "since [?x] c = Inr (if b then [?x] else [])"
        by (simp add: ebind_def)
      with Inr u Some None show ?thesis
        by (simp add: update_transaction_history_def Let_def)
    qed
  next
    case H: (Some h)
    from H v obtain c z where c: "dt_sub (timestamp t) (timedelta_days 7) = Inr c"
      and z: "since h c = Inr z"
      by (rule cvf_Some)
    from dt_ge_own_cutoff[OF c] obtain b where b: "dt_ge (timestamp t) c = Inr b" ..
    have "since (h @ [?x]) c = Inr (if b then z @ [?x] else z)"
      using since_snoc[OF z, of ?x b] b by simp
    with c u Some H show ?thesis
      by (simp add: update_transaction_history_def Let_def)
  qed
qed

lemma predict_Inl_inv:
  assumes "predict f orc s raw = (Inl err, s')"
  shows "(parse_timestamp f orc raw = Inl err \<and> s' = s)
       \<or> (\<exists>t e s1. parse_timestamp f orc raw = Inr t \<and> enrich_transaction orc s t = (e, s1)
            \<and> (s' = s1
                \<or> (\<exists>uid v. user_id t = Some uid
                      \<and> calculate_velocity_features s1 uid (timestamp t) = Inr v
                      \<and> update_transaction_history s1 uid t = (Inl err, s'))))"
proof (cases "parse_timestamp f orc raw")
  case (Inl e0)
  with assms show ?thesis by (simp add: predict_def)
next
  case (Inr t)
  obtain e s1 where e: "enrich_transaction orc s t = (e, s1)"
    by (cases "enrich_transaction orc s t") auto
  note p1 = predict_unfold[OF Inr e]
  have "s' = s1 \<or> (\<exists>uid v. user_id t = Some uid
                      \<and> calculate_velocity_features s1 uid (timestamp t) = Inr v
                      \<and> update_transaction_history s1 uid t = (Inl err, s'))"
  proof (cases "user_id t")
    case None
    with assms show ?thesis by (simp add: p1)
  next
    case uid: (Some uid)
    show ?thesis
    proof (cases "calculate_velocity_features s1 uid (timestamp t)")
      case (Inl e0)
      with assms show ?thesis by (simp add: p1 uid)
    next
      case v: (Inr v)
      show ?thesis
      proof (cases "extract_features (e\<lparr>e_velocity := Some v\<rparr>)")
        case (Inl e0)
        with assms show ?thesis by (simp add: p1 uid v)
      next
        case x: (Inr features)
        show ?thesis
        proof (cases "xgboost_out orc")
          case (Inl e0)
          with assms show ?thesis by (simp add: p1 uid v x)
        next
          case xgb: (Inr xgb)
          show ?thesis
          proof (cases "autoencoder_out orc")
            case (Inl e0)
            with assms show ?thesis by (simp add: p1 uid v x xgb)
          next
            case ae: (Inr ae)
            obtain u s2 where u: "update_transaction_history s1 uid t = (u, s2)"
              by (cases "update_transaction_history s1 uid t") auto
            from assms have "u = Inl err \<and> s2 = s'"
              by (cases u) (simp_all add: p1 uid v x xgb ae u Let_def)
            with u uid v show ?thesis by blast
          qed
        qed
      qed
    qed
  qed
  with Inr e show ?thesis by blast
qed

text \<open>
  C7, as the code has it. A call of \<^verbatim>\<open>predict\<close> rejected at timestamp parsing leaves the
  detector as it was. Any rejected call leaves the weights and thresholds, every
  metadata entry already cached and the cache entries under other ids than the
  transaction's own as they were, and it leaves every transaction history as it was,
  the user's own included, with two exceptions, both for a user without a history
  entry and both raised inside \<^verbatim>\<open>update_transaction_history\<close>:
  \<^item> the transaction has no amount: the call raises \<^verbatim>\<open>KeyError('amount')\<close> and leaves the
    empty history created at line 167;
  \<^item> the timestamp lies within seven days of \<^verbatim>\<open>datetime.min\<close>: the subtraction at line 176
    raises \<^verbatim>\<open>OverflowError\<close> and leaves the record appended at line 169.
\<close>

theorem rejected_call_state:
  assumes "predict f orc s raw = (Inl err, s')"
  shows "((\<exists>e. parse_timestamp f orc raw = Inl e) \<longrightarrow> s' = s)
       \<and> xgboost_weight s' = xgboost_weight s
       \<and> autoencoder_weight s' = autoencoder_weight s
       \<and> fraud_threshold s' = fraud_threshold s
       \<and> high_risk_threshold s' = high_risk_threshold s
       \<and> (\<forall>k v. user_metadata s k = Some v \<longrightarrow> user_metadata s' k = Some v)
       \<and> (\<forall>k. k \<noteq> user_id raw \<longrightarrow> user_metadata s' k = user_metadata s k)
       \<and> (\<forall>k v. merchant_metadata s k = Some v \<longrightarrow> merchant_metadata s' k = Some v)
       \<and> (\<forall>k. k \<noteq> merchant_id raw \<longrightarrow> merchant_metadata s' k = merchant_metadata s k)
       \<and> (transaction_history s' = transaction_history s
           \<or> (\<exists>uid. user_id raw = Some uid \<and> transaction_history s uid = None
                 \<and> amount raw = None \<and> err = KeyError ''amount''
                 \<and> transaction_history s' = (transaction_history s)(uid \<mapsto> []))
           \<or> (\<exists>uid t a. user_id raw = Some uid \<and> transaction_history s uid = None
                 \<and> parse_timestamp f orc raw = Inr t \<and> amount raw = Some a
                 \<and> wall (timestamp t) < timedelta_days 7 \<and> err = OverflowError
                 \<and> transaction_history s' = (transaction_history s)(uid \<mapsto>
                      [\<lparr>h_timestamp = timestamp t, h_amount = a,
                        h_merchant_id = merchant_id raw\<rparr>])))"
proof -
  let ?hist = "transaction_history s' = transaction_history s
           \<or> (\<exists>uid. user_id raw = Some uid \<and> transaction_history s uid = None
                 \<and> amount raw = None \<and> err = KeyError ''amount''
                 \<and> transaction_history s' = (transaction_history s)(uid \<mapsto> []))
           \<or> (\<exists>uid t a. user_id raw = Some uid \<and> transaction_history s uid = None
                 \<and> parse_timestamp f orc raw = Inr t \<and> amount raw = Some a
                 \<and> wall (timestamp t) < timedelta_days 7 \<and> err = OverflowError
                 \<and> transaction_history s' = (transaction_history s)(uid \<mapsto>
                      [\<lparr>h_timestamp = timestamp t, h_amount = a,
                        h_merchant_id = merchant_id raw\<rparr>]))"
  let ?rest = "xgboost_weight s' = xgboost_weight s
       \<and> autoencoder_weight s' = autoencoder_weight s
       \<and> fraud_threshold s' = fraud_threshold s
       \<and> high_risk_threshold s' = high_risk_threshold s
       \<and> (\<forall>k v. user_metadata s k = Some v \<longrightarrow> user_metadata s' k = Some v)
       \<and> (\<forall>k. k \<noteq> user_id raw \<longrightarrow> user_metadata s' k = user_metadata s k)
       \<and> (\<forall>k v. merchant_metadata s k = Some v \<longrightarrow> merchant_metadata s' k = Some v)
       \<and> (\<forall>k. k \<noteq> merchant_id raw \<longrightarrow> merchant_metadata s' k = merchant_metadata s k)"
  have parse: "s' = s" if "\<exists>e. parse_timestamp f orc raw = Inl e"
    using that assms by (auto simp: predict_parse_error)
  from predict_Inl_inv[OF assms] consider
    (same) "s' = s"
    | (enriched) t e where "parse_timestamp f orc raw = Inr t" "enrich_transaction orc s t = (e, s')"
    | (updated) t e s1 uid v where "parse_timestamp f orc raw = Inr t"
        "enrich_transaction orc s t = (e, s1)" "user_id t = Some uid"
        "calculate_velocity_features s1 uid (timestamp t) = Inr v"
        "update_transaction_history s1 uid t = (Inl err, s')"
    by blast
  then have "?rest \<and> ?hist"
  proof cases
    case same
    then show ?thesis by simp
  next
    case enriched
    note pf = parse_timestamp_fields[OF enriched(1)]
    from enrich_config[OF enriched(2)] enrich_caches[OF enriched(2)]
    show ?thesis unfolding pf by simp
  next
    case updated
    note pf = parse_timestamp_fields[OF updated(1)]
    note us = update_state[OF updated(5)]
    note cfg = enrich_config[OF updated(2)]
    have uid: "user_id raw = Some uid" using updated(3) pf by simp
    have rest: ?rest
      using cfg enrich_caches[OF updated(2)] us unfolding pf by auto
    from update_after_velocity[OF updated(4,5)]
    have "transaction_history s' = transaction_history s1
       \<or> (transaction_history s1 uid = None \<and> amount t = None \<and> err = KeyError ''amount''
            \<and> transaction_history s' = (transaction_history s1)(uid \<mapsto> []))
       \<or> (\<exists>a. transaction_history s1 uid = None \<and> amount t = Some a \<and> err = OverflowError
            \<and> wall (timestamp t) < timedelta_days 7
            \<and> transaction_history s' = (transaction_history s1)(uid \<mapsto>
                 [\<lparr>h_timestamp = timestamp t, h_amount = a, h_merchant_id = merchant_id t\<rparr>]))" .
    then have ?hist
      unfolding cfg(5) pf using uid updated(1) by blast
    with rest show ?thesis ..
  qed
  with parse show ?thesis by blast
qed

text \<open>
  The transaction with the unparsable timestamp, and the one without user id, on the
  detector with history.
\<close>

theorem rejected_call_state_witness:
  "predict ex_fromisoformat (ex_outcomes 0.9 0.2) ex_busy ex_bad_txn = (Inl ValueError, ex_busy)
 \<and> (\<exists>s'. predict ex_fromisoformat (ex_outcomes 0.9 0.2) ex_busy ex_anon_txn
             = (Inl (KeyError ''user_id''), s')
        \<and> high_risk_threshold s' = high_risk_threshold ex_busy
        \<and> user_metadata s' (Some ''U2'') = Some ex_user_meta
        \<and> merchant_metadata s' (Some ''M1'') = Some ex_merchant_meta
        \<and> transaction_history s' = transaction_history ex_busy)"
proof
  have pe: "parse_timestamp ex_fromisoformat (ex_outcomes 0.9 0.2) ex_bad_txn = Inl ValueError"
    by (simp add: parse_timestamp_def ex_bad_txn_def ex_fromisoformat_def)
  obtain s' where p: "predict ex_fromisoformat (ex_outcomes 0.9 0.2) ex_busy ex_bad_txn
      = (Inl ValueError, s')"
    using predict_parse_error[OF pe] by blast
  from rejected_call_state[OF p] pe have "s' = ex_busy" by blast
  with p show "predict ex_fromisoformat (ex_outcomes 0.9 0.2) ex_busy ex_bad_txn
      = (Inl ValueError, ex_busy)" by simp
next
  obtain s' where p: "predict ex_fromisoformat (ex_outcomes 0.9 0.2) ex_busy ex_anon_txn
             = (Inl (KeyError ''user_id''), s')"
    by (simp add: eval_defs ex_defs)
  have um: "user_metadata ex_busy (Some ''U2'') = Some ex_user_meta"
    and mm: "merchant_metadata ex_busy (Some ''M1'') = Some ex_merchant_meta"
    and uid: "user_id ex_anon_txn = None"
    by (simp_all add: ex_defs ex_detector_def init_detector_def)
  note r = rejected_call_state[OF p]
  from r have "high_risk_threshold s' = high_risk_threshold ex_busy" by blast
  moreover from r um have "user_metadata s' (Some ''U2'') = Some ex_user_meta" by blast
  moreover from r mm have "merchant_metadata s' (Some ''M1'') = Some ex_merchant_meta" by blast
  moreover from r uid have "transaction_history s' = transaction_history ex_busy" by auto
  ultimately show "\<exists>s'. predict ex_fromisoformat (ex_outcomes 0.9 0.2) ex_busy ex_anon_txn
             = (Inl (KeyError ''user_id''), s')
        \<and> high_risk_threshold s' = high_risk_threshold ex_busy
        \<and> user_metadata s' (Some ''U2'') = Some ex_user_meta
        \<and> merchant_metadata s' (Some ''M1'') = Some ex_merchant_meta
        \<and> transaction_history s' = transaction_history ex_busy"
    using p by blast
qed

text \<open>
  C7 as stated fails, in the three ways the amended statement leaves open. The call for
  the transaction without user id raises \<^verbatim>\<open>KeyError\<close> after \<^verbatim>\<open>enrich_transaction\<close> has stored
  user metadata under the key \<^verbatim>\<open>None\<close> and merchant metadata under M2. The call for the
  transaction of the new user U4 without amount raises \<^verbatim>\<open>KeyError('amount')\<close> and leaves U4
  with an empty history. The call for the transaction of the new user U5 stamped on
  the third day of year 1 raises \<^verbatim>\<open>OverflowError\<close> and leaves the rejected record as the
  history of U5.
\<close>

theorem rejected_call_mutates_counterexample:
  "fst (predict ex_fromisoformat (ex_outcomes 0.9 0.2) ex_busy ex_anon_txn)
     = Inl (KeyError ''user_id'')
 \<and> user_metadata ex_busy None = None
 \<and> user_metadata (snd (predict ex_fromisoformat (ex_outcomes 0.9 0.2) ex_busy ex_anon_txn)) None
     = Some ex_user_meta
 \<and> merchant_metadata ex_busy (Some ''M2'') = None
 \<and> merchant_metadata (snd (predict ex_fromisoformat (ex_outcomes 0.9 0.2) ex_busy ex_anon_txn))
      (Some ''M2'') = Some ex_merchant_meta
 \<and> fst (predict ex_fromisoformat (ex_outcomes 0.9 0.2) ex_busy ex_no_amount_txn)
     = Inl (KeyError ''amount'')
 \<and> transaction_history ex_busy ''U4'' = None
 \<and> transaction_history
      (snd (predict ex_fromisoformat (ex_outcomes 0.9 0.2) ex_busy ex_no_amount_txn)) ''U4''
     = Some []
 \<and> fst (predict ex_fromisoformat (ex_outcomes 0.9 0.2) ex_busy ex_early_txn)
     = Inl OverflowError
 \<and> transaction_history ex_busy ''U5'' = None
 \<and> transaction_history
      (snd (predict ex_fromisoformat (ex_outcomes 0.9 0.2) ex_busy ex_early_txn)) ''U5''
     = Some [\<lparr>h_timestamp = \<lparr>wall = 172800000000, utcoffset = None\<rparr>, h_amount = 150,
              h_merchant_id = Some ''M1''\<rparr>]"
  by (simp add: eval_defs ex_defs)

end
